theory Spec2Isabelle
  imports Main "HOL-Library.Sublist"
begin

section \<open>Strings and URL paths\<close>

text \<open>
  Go strings are byte sequences; they are modelled as \<open>string\<close> (lists of 8-bit
  characters). \<open>strings.HasSuffix\<close> and \<open>strings.HasPrefix\<close> are the suffix and prefix
  tests of the standard library.
\<close>

definition HasSuffix :: "string \<Rightarrow> string \<Rightarrow> bool" where
  "HasSuffix s suf = suffix suf s"

definition HasPrefix :: "string \<Rightarrow> string \<Rightarrow> bool" where
  "HasPrefix s pre = prefix pre s"

text \<open>
  \<open>singleJoiningSlash\<close> (main.go, lines 351-361). The slice \<open>b[1:]\<close> is only taken
  when \<open>b\<close> starts with a slash, so it is in range and equals \<open>drop 1 b\<close>.
\<close>

definition singleJoiningSlash :: "string \<Rightarrow> string \<Rightarrow> string" where
  "singleJoiningSlash a b =
     (let aslash = HasSuffix a ''/'';
          bslash = HasPrefix b ''/''
      in if aslash \<and> bslash then a @ drop 1 b
         else if \<not> aslash \<and> \<not> bslash then a @ ''/'' @ b
         else a @ b)"

text \<open>
  \<open>net/url.URL\<close> with the fields that the program reads or writes, and the query
  string, which it leaves alone.
\<close>

record URL =
  Scheme :: string
  Host :: string
  Path :: string
  RawPath :: string
  RawQuery :: string

text \<open>
  \<open>joinURLPath\<close> (main.go, lines 363-378). \<open>URL.EscapedPath\<close> belongs to the Go
  standard library and is a parameter of the model. The slice \<open>b.Path[1:]\<close> is guarded
  by a test on the escaped path, not on \<open>b.Path\<close> itself: on an empty \<open>b.Path\<close> Go
  panics, which is the result \<open>None\<close>.
\<close>

definition joinURLPath :: "(URL \<Rightarrow> string) \<Rightarrow> URL \<Rightarrow> URL \<Rightarrow> (string \<times> string) option" where
  "joinURLPath EscapedPath a b =
     (if RawPath a = [] \<and> RawPath b = [] then
        Some (singleJoiningSlash (Path a) (Path b), [])
      else
        let apath = EscapedPath a;
            bpath = EscapedPath b;
            aslash = HasSuffix apath ''/'';
            bslash = HasPrefix bpath ''/''
        in if aslash \<and> bslash then
             (if Path b = [] then None
              else Some (Path a @ drop 1 (Path b), apath @ drop 1 bpath))
           else if \<not> aslash \<and> \<not> bslash then
             Some (Path a @ ''/'' @ Path b, apath @ ''/'' @ bpath)
           else Some (Path a @ Path b, apath @ bpath))"

text \<open>
  Percent-decoding of a URL path, as \<open>net/url\<close> decodes \<open>RawPath\<close> into \<open>Path\<close>: a
  \<open>%\<close> must be followed by two hexadecimal digits and stands for that byte, every
  other byte stands for itself. \<open>None\<close> is the decoding error. A URL is consistent when
  its escaped path decodes to its \<open>Path\<close>.
\<close>

definition ishex :: "char \<Rightarrow> bool" where
  "ishex c = (let n = (of_char c :: nat)
              in (48 \<le> n \<and> n \<le> 57) \<or> (97 \<le> n \<and> n \<le> 102) \<or> (65 \<le> n \<and> n \<le> 70))"

definition unhex :: "char \<Rightarrow> nat" where
  "unhex c = (let n = (of_char c :: nat)
              in if 48 \<le> n \<and> n \<le> 57 then n - 48
                 else if 97 \<le> n \<and> n \<le> 102 then n - 97 + 10
                 else if 65 \<le> n \<and> n \<le> 70 then n - 65 + 10
                 else 0)"

fun unescape :: "string \<Rightarrow> string option" where
  "unescape [] = Some []"
| "unescape (c # s) =
     (if c = CHR ''%'' then
        (case s of
           h1 # h2 # r \<Rightarrow>
             if ishex h1 \<and> ishex h2
             then map_option ((#) (char_of (unhex h1 * 16 + unhex h2))) (unescape r)
             else None
         | _ \<Rightarrow> None)
      else map_option ((#) c) (unescape s))"


text \<open>
  The two stripping operations that describe a join with one slash: at most one
  trailing slash is taken from the left path and at most one leading slash from the
  right path.
\<close>

definition trimSlashSuffix :: "string \<Rightarrow> string" where
  "trimSlashSuffix a = (if HasSuffix a ''/'' then butlast a else a)"

definition trimSlashPrefix :: "string \<Rightarrow> string" where
  "trimSlashPrefix b = (if HasPrefix b ''/'' then drop 1 b else b)"

section \<open>Time, durations and tokens\<close>

text \<open>
  A \<open>time.Duration\<close> is a signed 64-bit count of nanoseconds; it is modelled as an
  integer with the wrap-around of Go's \<open>int64\<close> arithmetic written out. A \<open>time.Time\<close>
  is an instant, counted in nanoseconds from Go's zero time, so that the zero
  \<open>Time\<close> is \<open>0\<close>.
\<close>

type_synonym Duration = int

type_synonym Time = int

definition minDuration :: Duration where
  "minDuration = - (2 ^ 63)"

definition maxDuration :: Duration where
  "maxDuration = 2 ^ 63 - 1"

definition wrap64 :: "int \<Rightarrow> Duration" where
  "wrap64 x = (x + 2 ^ 63) mod 2 ^ 64 - 2 ^ 63"

definition Second :: Duration where
  "Second = 1000000000"

text \<open>The constants of main.go, lines 33-36.\<close>

definition retryInterval :: Duration where
  "retryInterval = wrap64 (5 * Second)"

definition prefixHeader :: string where
  "prefixHeader = ''X-Forwarded-Prefix''"

text \<open>
  \<open>Time.Sub\<close> of the standard library: the difference of two instants, and the
  largest or smallest duration when the difference does not fit.
\<close>

definition Time_Sub :: "Time \<Rightarrow> Time \<Rightarrow> Duration" where
  "Time_Sub t u =
     (if t - u > maxDuration then maxDuration
      else if t - u < minDuration then minDuration
      else t - u)"

text \<open>
  \<open>time.NewTimer d\<close> of the standard library fires once \<open>d\<close> has elapsed, and at once
  when \<open>d\<close> is zero or negative: the time a receive on its channel waits.
\<close>

definition timerWait :: "Duration \<Rightarrow> Duration" where
  "timerWait d = (if d \<le> 0 then 0 else d)"

text \<open>
  \<open>oauth2.Token\<close> with the fields the program reads. \<open>Token.Valid\<close> belongs to the
  oauth2 library: a token is valid when it has an access token and is not expired; a
  token whose \<open>Expiry\<close> is the zero time never expires, any other token counts as
  expired \<open>expiryDelta\<close> (ten seconds) before its \<open>Expiry\<close>. The clock that \<open>Valid\<close>
  reads is an argument.
\<close>

record Token =
  AccessToken :: string
  Expiry :: Time

definition expiryDelta :: Duration where
  "expiryDelta = 10 * Second"

definition expired :: "Time \<Rightarrow> Token \<Rightarrow> bool" where
  "expired clock t = (if Expiry t = 0 then False else Expiry t - expiryDelta < clock)"

definition Valid :: "Time \<Rightarrow> Token \<Rightarrow> bool" where
  "Valid clock t = (AccessToken t \<noteq> [] \<and> \<not> expired clock t)"

section \<open>Configuration\<close>

type_synonym error = string

datatype level = AllowError | AllowWarn | AllowInfo | AllowDebug

record upstreamConfig =
  url :: "URL option"
  caFile :: string
  readTimeout :: Duration
  writeTimeout :: Duration

record serverConfig =
  listen :: string
  listenInternal :: string

record oidcConfig =
  audience :: string
  clientID :: string
  clientSecret :: string
  issuerURL :: string
  username :: string
  password :: string

text \<open>The struct \<open>config\<close>; its field \<open>file\<close> is \<open>cfgFile\<close> here.\<close>

record config =
  cfgFile :: string
  logLevel :: level
  logFormat :: string
  margin :: Duration
  name :: string
  tempFile :: string
  oidc :: oidcConfig
  server :: serverConfig
  upstream :: upstreamConfig
  scope :: "string list"

text \<open>
  The values of the command-line flags once \<open>flag.Parse\<close> has run (main.go, lines
  94-115): each flag's value, from the command line, the environment default or the
  built-in default.
\<close>

record flagValues =
  debug_name :: string
  log_level :: string
  log_format :: string
  web_internal_listen :: string
  web_listen :: string
  oidc_issuer_url :: string
  oidc_client_secret :: string
  oidc_client_id :: string
  oidc_audience :: string
  oidc_username :: string
  oidc_password :: string
  scope_flag :: "string list"
  file_flag :: string
  temp_file :: string
  url_flag :: string
  upstream_url :: string
  upstream_ca_file :: string
  upstream_read_timeout :: Duration
  upstream_write_timeout :: Duration
  margin_flag :: Duration

definition parseLevel :: "string \<Rightarrow> error + level" where
  "parseLevel raw =
     (if raw = ''error'' then Inr AllowError
      else if raw = ''warn'' then Inr AllowWarn
      else if raw = ''info'' then Inr AllowInfo
      else if raw = ''debug'' then Inr AllowDebug
      else Inl (''unexpected log level: '' @ raw))"

text \<open>
  \<open>parseFlags\<close> (main.go, lines 92-159) after \<open>flag.Parse\<close>. \<open>url.Parse\<close> belongs to the
  standard library and is a parameter. \<open>Inl\<close> is the returned error.
\<close>

definition parseFlags :: "(string \<Rightarrow> error + URL) \<Rightarrow> flagValues \<Rightarrow> error + config" where
  "parseFlags url_Parse fv =
     (case parseLevel (log_level fv) of
        Inl err \<Rightarrow> Inl err
      | Inr lvl \<Rightarrow>
          if url_flag fv \<noteq> [] \<and> upstream_url fv \<noteq> [] then
            Inl ''use only one of --url or --upstream.url''
          else
            (case (if url_flag fv \<noteq> [] then map_sum id Some (url_Parse (url_flag fv))
                   else Inr None) of
               Inl err \<Rightarrow> Inl err
             | Inr u1 \<Rightarrow>
                 (case (if upstream_url fv \<noteq> [] then map_sum id Some (url_Parse (upstream_url fv))
                        else Inr u1) of
                    Inl err \<Rightarrow> Inl err
                  | Inr u2 \<Rightarrow>
                      if file_flag fv = [] \<and> u2 = None then
                        Inl ''one of --file or --upstream.url is required''
                      else
                        Inr \<lparr> cfgFile = file_flag fv,
                              logLevel = lvl,
                              logFormat = log_format fv,
                              margin = margin_flag fv,
                              name = debug_name fv,
                              tempFile = (if temp_file fv = [] then file_flag fv @ ''.tmp''
                                          else temp_file fv),
                              oidc = \<lparr> audience = oidc_audience fv,
                                       clientID = oidc_client_id fv,
                                       clientSecret = oidc_client_secret fv,
                                       issuerURL = oidc_issuer_url fv,
                                       username = oidc_username fv,
                                       password = oidc_password fv \<rparr>,
                              server = \<lparr> listen = web_listen fv,
                                         listenInternal = web_internal_listen fv \<rparr>,
                              upstream = \<lparr> url = u2,
                                           caFile = upstream_ca_file fv,
                                           readTimeout = upstream_read_timeout fv,
                                           writeTimeout = upstream_write_timeout fv \<rparr>,
                              scope = scope_flag fv \<rparr>)))"

text \<open>
  The start of \<open>main\<close> (main.go, lines 161-227): \<open>parseFlags\<close> runs first and an error
  ends the process (\<open>stdlog.Fatal\<close>); the logger and the metrics registry are set up
  without any network traffic, and the functions added to the run group do not run
  before \<open>g.Run\<close>. The first network call is the OIDC discovery of \<open>oidc.NewProvider\<close>
  (a library function: a parameter that gives the token endpoint or an error). The
  result carries the network calls made so far.
\<close>

datatype netcall = Discovery string

datatype startup = Fatal error | Configured config string

definition main_startup ::
  "(string \<Rightarrow> error + URL) \<Rightarrow> (string \<Rightarrow> error + string) \<Rightarrow> flagValues \<Rightarrow> netcall list \<times> startup" where
  "main_startup url_Parse NewProvider fv =
     (case parseFlags url_Parse fv of
        Inl err \<Rightarrow> ([], Fatal err)
      | Inr cfg \<Rightarrow>
          (case NewProvider (issuerURL (oidc cfg)) of
             Inl err \<Rightarrow>
               ([Discovery (issuerURL (oidc cfg))],
                Fatal (''OIDC provider initialization failed: '' @ err))
           | Inr tokenURL \<Rightarrow> ([Discovery (issuerURL (oidc cfg))], Configured cfg tokenURL)))"

section \<open>The token source's parameters\<close>

fun strings_Join :: "string list \<Rightarrow> string \<Rightarrow> string" where
  "strings_Join [] sep = []"
| "strings_Join [x] sep = x"
| "strings_Join (x # y # ys) sep = x @ sep @ strings_Join (y # ys) sep"

text \<open>
  \<open>clientcredentials.Config\<close>; \<open>url.Values\<close> is a map from a parameter's name to its
  values, and the nil map is the empty one.
\<close>

record clientcredentials_Config =
  ClientID :: string
  ClientSecret :: string
  TokenURL :: string
  EndpointParams :: "string \<rightharpoonup> string list"

text \<open>
  The value of \<open>ccc\<close> that \<open>main\<close> builds (main.go, lines 233-254): three \<open>if\<close>
  statements in a row, each of which assigns the whole of \<open>EndpointParams\<close>.
\<close>

definition ccc :: "config \<Rightarrow> string \<Rightarrow> clientcredentials_Config" where
  "ccc cfg tokenURL =
     (let c0 = \<lparr> ClientID = clientID (oidc cfg),
                 ClientSecret = clientSecret (oidc cfg),
                 TokenURL = tokenURL,
                 EndpointParams = Map.empty \<rparr>;
          c1 = (if audience (oidc cfg) \<noteq> []
                then c0\<lparr>EndpointParams := [''audience'' \<mapsto> [audience (oidc cfg)]]\<rparr>
                else c0);
          c2 = (if username (oidc cfg) \<noteq> [] \<and> password (oidc cfg) \<noteq> []
                then c1\<lparr>EndpointParams :=
                          [''username'' \<mapsto> [username (oidc cfg)],
                           ''password'' \<mapsto> [password (oidc cfg)],
                           ''grant_type'' \<mapsto> [''password'']]\<rparr>
                else c1);
          c3 = (if length (scope cfg) \<noteq> 0
                then c2\<lparr>EndpointParams := [''scope'' \<mapsto> [strings_Join (scope cfg) '' '']]\<rparr>
                else c2)
      in c3)"

section \<open>The refresh loop of file mode\<close>

text \<open>
  The files on disk: a map from a path to the bytes of the file at that path.
  \<open>ioutil.WriteFile\<close> and \<open>os.Rename\<close> belong to the standard library; what the
  operating system does on one call is an argument. \<open>WriteFile\<close> opens the file with
  truncation and then writes: it can fail before the file is touched, or after
  truncation with only the first \<open>n\<close> bytes in the file. \<open>Rename\<close> replaces the new
  path by the old file in one step or changes nothing; it fails without a file at the
  old path, and renaming a path to itself changes nothing.
\<close>

type_synonym fs = "string \<rightharpoonup> string"

datatype write_outcome = Written | OpenError error | WriteError nat error

datatype rename_outcome = Renamed | RenameError error

definition WriteFile :: "write_outcome \<Rightarrow> string \<Rightarrow> string \<Rightarrow> fs \<Rightarrow> error option \<times> fs" where
  "WriteFile out filename data files =
     (case out of
        Written \<Rightarrow> (None, files(filename \<mapsto> data))
      | OpenError err \<Rightarrow> (Some err, files)
      | WriteError n err \<Rightarrow> (Some err, files(filename \<mapsto> take n data)))"

definition Rename :: "rename_outcome \<Rightarrow> string \<Rightarrow> string \<Rightarrow> fs \<Rightarrow> error option \<times> fs" where
  "Rename out oldpath newpath files =
     (case out of
        RenameError err \<Rightarrow> (Some err, files)
      | Renamed \<Rightarrow>
          (case files oldpath of
             None \<Rightarrow> (Some ''no such file or directory'', files)
           | Some data \<Rightarrow>
               if oldpath = newpath then (None, files)
               else (None, (files(oldpath := None))(newpath \<mapsto> data))))"

text \<open>
  A log line of \<open>level.Error\<close>: the message and the value logged with it (the error,
  or the expiry of an invalid token).
\<close>

datatype logged = Err error | Exp Time

type_synonym log_line = "string \<times> logged"

text \<open>
  The two steps that publish a token (main.go, lines 267-274): write the access
  token to the temporary file, then rename the temporary file to the token file. The
  result is the log line of the step that failed, or \<open>None\<close> when both succeeded, with
  the files as they are left.
\<close>

definition publish ::
  "write_outcome \<Rightarrow> rename_outcome \<Rightarrow> config \<Rightarrow> Token \<Rightarrow> fs \<Rightarrow> log_line option \<times> fs" where
  "publish wr rn cfg t files =
     (case WriteFile wr (tempFile cfg) (AccessToken t) files of
        (Some err, files1) \<Rightarrow>
          (Some (''failed to write token to temporary file'', Err err), files1)
      | (None, files1) \<Rightarrow>
          (case Rename rn (tempFile cfg) (cfgFile cfg) files1 of
             (Some err, files2) \<Rightarrow> (Some (''failed to write token to file'', Err err), files2)
           | (None, files2) \<Rightarrow> (None, files2)))"

text \<open>
  What the surroundings do in one pass of the loop: the result of \<open>ccc.Token\<close>, the
  clock read by \<open>Valid\<close>, the outcomes of the two file operations, the clock read by
  \<open>time.Now\<close> on line 275, and whether the \<open>select\<close> at the end of the pass receives
  from \<open>ctx.Done\<close> rather than from the timer.
\<close>

record pass =
  fetched :: "error + Token"
  validClock :: Time
  writeOutcome :: write_outcome
  renameOutcome :: rename_outcome
  now :: Time
  ctxDone :: bool

text \<open>
  The state the loop works on: the files, the lines logged so far and the waits on
  the timer that ran to their end.
\<close>

record state =
  files :: fs
  logs :: "log_line list"
  waits :: "Duration list"

text \<open>
  One pass of the loop up to its \<open>select\<close> (main.go, lines 259-276): the duration
  \<open>d\<close> handed to the timer and the state. \<open>d\<close> starts as \<open>retryInterval\<close> and is
  assigned only on line 275, in 64-bit arithmetic.
\<close>

definition loopBody :: "config \<Rightarrow> pass \<Rightarrow> state \<Rightarrow> Duration \<times> state" where
  "loopBody cfg e s =
     (let d = retryInterval in
      case fetched e of
        Inl err \<Rightarrow> (d, s\<lparr>logs := logs s @ [(''failed to get token'', Err err)]\<rparr>)
      | Inr t \<Rightarrow>
          if \<not> Valid (validClock e) t then
            (d, s\<lparr>logs := logs s @ [(''token is invalid'', Exp (Expiry t))]\<rparr>)
          else
            (case publish (writeOutcome e) (renameOutcome e) cfg t (files s) of
               (Some line, files') \<Rightarrow> (d, s\<lparr>files := files', logs := logs s @ [line]\<rparr>)
             | (None, files') \<Rightarrow>
                 (wrap64 (Time_Sub (Expiry t) (now e) - margin cfg), s\<lparr>files := files'\<rparr>)))"

text \<open>
  The loop (main.go, lines 258-282) over the passes the surroundings allow. A pass
  ends in the \<open>select\<close>: on \<open>ctx.Done\<close> the function returns \<open>nil\<close>, otherwise the timer
  runs to its end and the next pass starts. \<open>Running\<close> is the loop that has not
  returned after the passes given.
\<close>

datatype exit = Returned state | Running state

fun refreshLoop :: "config \<Rightarrow> pass list \<Rightarrow> state \<Rightarrow> exit" where
  "refreshLoop cfg [] s = Running s"
| "refreshLoop cfg (e # es) s =
     (case loopBody cfg e s of
        (d, s') \<Rightarrow>
          if ctxDone e then Returned s'
          else refreshLoop cfg es (s'\<lparr>waits := waits s' @ [timerWait d]\<rparr>))"

section \<open>The proxy\<close>

text \<open>
  \<open>http.Header\<close> maps a header's name to its values. \<open>Header.Add\<close> appends a value to
  the values of the name, \<open>Header.Set\<close> replaces them; the two names used here,
  \<open>X-Forwarded-Prefix\<close> and \<open>Authorization\<close>, are in canonical form already.
\<close>

type_synonym Header = "string \<rightharpoonup> string list"

definition Header_Add :: "Header \<Rightarrow> string \<Rightarrow> string \<Rightarrow> Header" where
  "Header_Add h key v = h(key \<mapsto> (case h key of None \<Rightarrow> [] | Some vs \<Rightarrow> vs) @ [v])"

definition Header_Set :: "Header \<Rightarrow> string \<Rightarrow> string \<Rightarrow> Header" where
  "Header_Set h key v = h(key \<mapsto> [v])"

text \<open>\<open>http.Request\<close>; its field \<open>Host\<close> is \<open>ReqHost\<close> here.\<close>

record Request =
  Method :: string
  ReqURL :: URL
  ReqHost :: string
  ReqHeader :: Header
  Body :: string

text \<open>
  The \<open>Director\<close> of the reverse proxy (main.go, lines 292-302), for the upstream URL
  \<open>u\<close> of the configuration. \<open>None\<close> is the panic of \<open>joinURLPath\<close>.
\<close>

definition Director :: "(URL \<Rightarrow> string) \<Rightarrow> URL \<Rightarrow> Request \<Rightarrow> Request option" where
  "Director EscapedPath u request =
     (let r1 = request\<lparr>ReqURL := (ReqURL request)\<lparr>Scheme := Scheme u\<rparr>\<rparr>;
          r2 = r1\<lparr>ReqHost := Host u\<rparr>;
          r3 = r2\<lparr>ReqURL := (ReqURL r2)\<lparr>Host := Host u\<rparr>\<rparr>
      in case joinURLPath EscapedPath u (ReqURL r3) of
           None \<Rightarrow> None
         | Some (p, rp) \<Rightarrow>
             (let r4 = r3\<lparr>ReqURL := (ReqURL r3)\<lparr>Path := p, RawPath := rp\<rparr>\<rparr>
              in Some (r4\<lparr>ReqHeader := Header_Add (ReqHeader r4) prefixHeader ''/''\<rparr>)))"

text \<open>
  \<open>oauth2.Transport.RoundTrip\<close> of the oauth2 library, the transport that \<open>main\<close>
  gives the proxy (main.go, lines 319-322): it asks the token source for a token; an
  error of the source fails the round trip; otherwise the header \<open>Authorization\<close> of
  the outgoing request is set to the token's type, a space and the access token, and
  the request goes to the base transport. \<open>Token.Type\<close> is a parameter.
\<close>

definition RoundTrip :: "(Token \<Rightarrow> string) \<Rightarrow> error + Token \<Rightarrow> Request \<Rightarrow> error + Request" where
  "RoundTrip Type source req =
     (case source of
        Inl err \<Rightarrow> Inl err
      | Inr t \<Rightarrow>
          Inr (req\<lparr>ReqHeader := Header_Set (ReqHeader req) ''Authorization''
                                   (Type t @ '' '' @ AccessToken t)\<rparr>))"

text \<open>
  A request through the proxy (\<open>httputil.ReverseProxy\<close> with the \<open>Director\<close> and the
  \<open>Transport\<close> that \<open>main\<close> gives it): the \<open>Director\<close> runs on the outgoing request;
  the reverse proxy then works on the outgoing headers (it deletes the hop-by-hop
  headers and the headers that the request's \<open>Connection\<close> header names, and sets
  \<open>X-Forwarded-For\<close>), a step of the standard library that is the parameter
  \<open>hopByHop\<close>; then the transport runs. A token source that fails makes the round
  trip fail: the request is not forwarded and the client gets the proxy's error
  response.
\<close>

datatype forwarded = Panicked | Failed error | Forwarded Request

definition forward ::
  "(URL \<Rightarrow> string) \<Rightarrow> (Token \<Rightarrow> string) \<Rightarrow> (Header \<Rightarrow> Header) \<Rightarrow> URL \<Rightarrow> error + Token \<Rightarrow>
   Request \<Rightarrow> forwarded" where
  "forward EscapedPath Type hopByHop u source request =
     (case Director EscapedPath u request of
        None \<Rightarrow> Panicked
      | Some req \<Rightarrow>
          (case RoundTrip Type source (req\<lparr>ReqHeader := hopByHop (ReqHeader req)\<rparr>) of
             Inl err \<Rightarrow> Failed err
           | Inr out \<Rightarrow> Forwarded out))"

section \<open>A configuration to run the program on\<close>

text \<open>
  The configuration of the repository's integration test (test/integration.sh) in
  file mode, with the default margin of five minutes and the default temporary file.
\<close>

definition exampleConfig :: config where
  "exampleConfig =
     \<lparr> cfgFile = ''./tmp/token'',
       logLevel = AllowInfo,
       logFormat = ''logfmt'',
       margin = 300000000000,
       name = ''token-refresher'',
       tempFile = ''./tmp/token.tmp'',
       oidc = \<lparr> audience = ''observatorium'',
                clientID = ''up'',
                clientSecret = ''secret'',
                issuerURL = ''http://localhost:4444/'',
                username = [],
                password = [] \<rparr>,
       server = \<lparr> listen = '':8080'', listenInternal = '':8081'' \<rparr>,
       upstream = \<lparr> url = None, caFile = [], readTimeout = 0, writeTimeout = 0 \<rparr>,
       scope = [] \<rparr>"

text \<open>
  The flags of the integration test, which sets both \<open>--file\<close> and \<open>--url\<close>; a
  stand-in for \<open>url.Parse\<close> that knows the test's upstream URL; the upstream URL
  of the specification's proxy scenario; and a request to the proxy.
\<close>

definition exampleFlags :: flagValues where
  "exampleFlags =
     \<lparr> debug_name = ''token-refresher'',
       log_level = ''info'',
       log_format = ''logfmt'',
       web_internal_listen = '':8081'',
       web_listen = '':8080'',
       oidc_issuer_url = ''http://localhost:4444/'',
       oidc_client_secret = ''secret'',
       oidc_client_id = ''up'',
       oidc_audience = ''observatorium'',
       oidc_username = [],
       oidc_password = [],
       scope_flag = [],
       file_flag = ''./tmp/token'',
       temp_file = [],
       url_flag = ''http://127.0.0.1:8443'',
       upstream_url = [],
       upstream_ca_file = [],
       upstream_read_timeout = 0,
       upstream_write_timeout = 0,
       margin_flag = 300000000000 \<rparr>"

definition exampleParse :: "string \<Rightarrow> error + URL" where
  "exampleParse raw =
     (if raw = ''http://127.0.0.1:8443''
      then Inr \<lparr>Scheme = ''http'', Host = ''127.0.0.1:8443'', Path = [], RawPath = [],
                RawQuery = []\<rparr>
      else Inl ''parse error'')"

definition exampleUpstream :: URL where
  "exampleUpstream =
     \<lparr>Scheme = ''http'', Host = ''127.0.0.1:8443'', Path = ''/api/metrics/v1/test'',
      RawPath = [], RawQuery = []\<rparr>"

definition exampleRequest :: Request where
  "exampleRequest =
     \<lparr>Method = ''POST'',
      ReqURL = \<lparr>Scheme = [], Host = [], Path = ''/foo/bar'', RawPath = [],
                RawQuery = ''q=1''\<rparr>,
      ReqHost = ''localhost:8080'',
      ReqHeader = [''Content-Type'' \<mapsto> [''text/plain'']],
      Body = ''data''\<rparr>"

text \<open>
  Stand-ins for the two library parameters of a request through the proxy:
  \<open>Token.Type\<close> on a token of type \<open>Bearer\<close> and on a token of type \<open>mac\<close>, and the
  reverse proxy's work on the headers of a request whose \<open>Connection\<close> header names
  no other header.
\<close>

definition exampleBearer :: "Token \<Rightarrow> string" where
  "exampleBearer t = ''Bearer''"

definition exampleMac :: "Token \<Rightarrow> string" where
  "exampleMac t = ''MAC''"

definition exampleHopByHop :: "Header \<Rightarrow> Header" where
  "exampleHopByHop h = h(''Connection'' := None)"

section \<open>Joining URL paths\<close>

lemma HasSuffix_slash: "HasSuffix a ''/'' \<longleftrightarrow> a \<noteq> [] \<and> last a = CHR ''/''"
  by (cases a rule: rev_cases) (auto simp: HasSuffix_def)

lemma HasPrefix_slash: "HasPrefix b ''/'' \<longleftrightarrow> (\<exists>t. b = CHR ''/'' # t)"
  by (cases b) (auto simp: HasPrefix_def)

lemma singleJoiningSlash_trim:
  "singleJoiningSlash x y = trimSlashSuffix x @ ''/'' @ trimSlashPrefix y"
proof -
  have sfx: "butlast x @ ''/'' = x" if "HasSuffix x ''/''"
    using that by (simp add: HasSuffix_slash) (metis append_butlast_last_id)
  have pfx: "CHR ''/'' # drop 1 y = y" if "HasPrefix y ''/''"
    using that by (auto simp: HasPrefix_slash)
  show ?thesis
  proof (cases "HasSuffix x ''/''")
    case a: True
    show ?thesis
    proof (cases "HasPrefix y ''/''")
      case True
      with a sfx show ?thesis
        by (auto simp add: singleJoiningSlash_def trimSlashSuffix_def trimSlashPrefix_def)
    next
      case False
      with a sfx show ?thesis
        by (auto simp add: singleJoiningSlash_def trimSlashSuffix_def trimSlashPrefix_def)
    qed
  next
    case a: False
    show ?thesis
    proof (cases "HasPrefix y ''/''")
      case True
      with a pfx show ?thesis
        by (simp add: singleJoiningSlash_def trimSlashSuffix_def trimSlashPrefix_def)
    next
      case False
      with a show ?thesis
        by (simp add: singleJoiningSlash_def trimSlashSuffix_def trimSlashPrefix_def)
    qed
  qed
qed

lemma trimSlashSuffix_no_slash:
  assumes "\<not> HasSuffix x ''//''"
  shows "\<not> HasSuffix (trimSlashSuffix x) ''/''"
proof (cases "HasSuffix x ''/''")
  case True
  then obtain z where x: "x = z @ ''/''"
    by (auto simp: HasSuffix_def suffix_def)
  show ?thesis
  proof
    assume "HasSuffix (trimSlashSuffix x) ''/''"
    with True x have "HasSuffix z ''/''"
      by (simp add: trimSlashSuffix_def)
    then obtain w where "z = w @ ''/''"
      by (auto simp: HasSuffix_def suffix_def)
    with x have "x = w @ ''//''" by simp
    then have "HasSuffix x ''//''"
      unfolding HasSuffix_def suffix_def by blast
    with assms show False by contradiction
  qed
next
  case False
  then show ?thesis by (simp add: trimSlashSuffix_def)
qed

lemma trimSlashPrefix_no_slash:
  assumes "\<not> HasPrefix y ''//''"
  shows "\<not> HasPrefix (trimSlashPrefix y) ''/''"
  using assms
  by (cases y; cases "tl y") (auto simp: trimSlashPrefix_def HasPrefix_def)

lemma unescape_append:
  "unescape x = Some px \<Longrightarrow> unescape y = Some py \<Longrightarrow> unescape (x @ y) = Some (px @ py)"
proof (induction x arbitrary: px rule: unescape.induct)
  case 1
  then show ?case by simp
next
  case (2 c s)
  then show ?case
    by (auto split: if_splits list.splits)
qed

lemma unescape_slash: "unescape ''/'' = Some ''/''"
  by simp

lemma unescape_drop_slash:
  assumes "unescape q = Some p" and "HasPrefix q ''/''"
  shows "p \<noteq> [] \<and> unescape (drop 1 q) = Some (drop 1 p)"
  using assms by (auto simp: HasPrefix_slash)

lemma joinURLPath_escaped:
  assumes raw: "\<not> (RawPath a = [] \<and> RawPath b = [])"
    and ea: "unescape (esc a) = Some (Path a)"
    and eb: "unescape (esc b) = Some (Path b)"
  shows "\<exists>p r. joinURLPath esc a b = Some (p, r) \<and>
           r = singleJoiningSlash (esc a) (esc b) \<and> unescape r = Some p"
proof (cases "HasSuffix (esc a) ''/''"; cases "HasPrefix (esc b) ''/''")
  assume s: "HasSuffix (esc a) ''/''" and p: "HasPrefix (esc b) ''/''"
  from unescape_drop_slash [OF eb p]
  have ne: "Path b \<noteq> []" and d: "unescape (drop 1 (esc b)) = Some (drop 1 (Path b))"
    by simp_all
  from unescape_append [OF ea d] raw s p ne show ?thesis
    by (auto simp add: joinURLPath_def singleJoiningSlash_def)
next
  assume s: "HasSuffix (esc a) ''/''" and p: "\<not> HasPrefix (esc b) ''/''"
  from unescape_append [OF ea eb] raw s p show ?thesis
    by (auto simp add: joinURLPath_def singleJoiningSlash_def)
next
  assume s: "\<not> HasSuffix (esc a) ''/''" and p: "HasPrefix (esc b) ''/''"
  from unescape_append [OF ea eb] raw s p show ?thesis
    by (auto simp add: joinURLPath_def singleJoiningSlash_def)
next
  assume s: "\<not> HasSuffix (esc a) ''/''" and p: "\<not> HasPrefix (esc b) ''/''"
  from unescape_append [OF unescape_slash eb]
  have "unescape (''/'' @ esc b) = Some (''/'' @ Path b)" .
  from unescape_append [OF ea this] raw s p show ?thesis
    by (auto simp add: joinURLPath_def singleJoiningSlash_def)
qed


text \<open>
  Claim C6, as the program has it. The three joins of the specification hold. When
  neither URL has a \<open>RawPath\<close>, the result is \<open>singleJoiningSlash\<close> of the two plain
  paths with an empty \<open>RawPath\<close>. \<open>singleJoiningSlash\<close> takes at most one trailing slash
  from the left path and at most one leading slash from the right path and puts one
  slash between them: a slash is never missing at the joint, and it is the only one
  there when the left path does not end in two slashes and the right path does not
  start with two. When one of the URLs has a \<open>RawPath\<close> and the escaped path of each
  decodes to its \<open>Path\<close>, the join does not panic, the returned \<open>RawPath\<close> is
  \<open>singleJoiningSlash\<close> of the escaped paths, and it decodes to the returned \<open>Path\<close>.
\<close>

theorem joinURLPath_single_slash:
  "joinURLPath esc (a\<lparr>Path := ''/api/v1'', RawPath := []\<rparr>) (b\<lparr>Path := ''/metrics'', RawPath := []\<rparr>)
     = Some (''/api/v1/metrics'', []) \<and>
   joinURLPath esc (a\<lparr>Path := ''/api/v1/'', RawPath := []\<rparr>) (b\<lparr>Path := ''/metrics'', RawPath := []\<rparr>)
     = Some (''/api/v1/metrics'', []) \<and>
   joinURLPath esc (a\<lparr>Path := ''/api/v1'', RawPath := []\<rparr>) (b\<lparr>Path := ''metrics'', RawPath := []\<rparr>)
     = Some (''/api/v1/metrics'', []) \<and>
   (RawPath a = [] \<and> RawPath b = [] \<longrightarrow>
      joinURLPath esc a b = Some (singleJoiningSlash (Path a) (Path b), [])) \<and>
   singleJoiningSlash x y = trimSlashSuffix x @ ''/'' @ trimSlashPrefix y \<and>
   (\<not> HasSuffix x ''//'' \<longrightarrow> \<not> HasSuffix (trimSlashSuffix x) ''/'') \<and>
   (\<not> HasPrefix y ''//'' \<longrightarrow> \<not> HasPrefix (trimSlashPrefix y) ''/'') \<and>
   (\<not> (RawPath a = [] \<and> RawPath b = []) \<and>
    unescape (esc a) = Some (Path a) \<and> unescape (esc b) = Some (Path b) \<longrightarrow>
      (\<exists>p r. joinURLPath esc a b = Some (p, r) \<and>
             r = singleJoiningSlash (esc a) (esc b) \<and> unescape r = Some p))"
proof -
  have ex: "singleJoiningSlash ''/api/v1'' ''/metrics'' = ''/api/v1/metrics''"
    "singleJoiningSlash ''/api/v1/'' ''/metrics'' = ''/api/v1/metrics''"
    "singleJoiningSlash ''/api/v1'' ''metrics'' = ''/api/v1/metrics''"
    by (simp_all add: singleJoiningSlash_def HasSuffix_def HasPrefix_def suffix_to_prefix)
  have plain: "joinURLPath esc c d = Some (singleJoiningSlash (Path c) (Path d), [])"
    if "RawPath c = []" "RawPath d = []" for c d
    using that by (simp add: joinURLPath_def)
  show ?thesis
    using ex plain [of a b] singleJoiningSlash_trim [of x y]
      trimSlashSuffix_no_slash [of x] trimSlashPrefix_no_slash [of y]
      joinURLPath_escaped [of a b esc]
    by (simp add: plain)
qed

text \<open>
  The theorem of C6 at concrete URLs: a join of plain paths, and a join where the
  base URL has the escaped path \<open>/a%20b/\<close>.
\<close>

theorem joinURLPath_single_slash_witness:
  "joinURLPath (\<lambda>u. if RawPath u = [] then Path u else RawPath u)
     \<lparr>Scheme = ''http'', Host = ''h'', Path = ''/api/v1'', RawPath = [], RawQuery = []\<rparr>
     \<lparr>Scheme = ''http'', Host = ''h'', Path = ''/metrics'', RawPath = [], RawQuery = []\<rparr>
     = Some (''/api/v1/metrics'', []) \<and>
   joinURLPath (\<lambda>u. if RawPath u = [] then Path u else RawPath u)
     \<lparr>Scheme = ''http'', Host = ''h'', Path = ''/a b/'', RawPath = ''/a%20b/'', RawQuery = []\<rparr>
     \<lparr>Scheme = ''http'', Host = ''h'', Path = ''/c'', RawPath = [], RawQuery = []\<rparr>
     = Some (''/a b/c'', ''/a%20b/c'') \<and>
   unescape ''/a%20b/c'' = Some ''/a b/c'' \<and>
   \<not> HasSuffix ''/api/v1/'' ''//'' \<and> \<not> HasSuffix (trimSlashSuffix ''/api/v1/'') ''/'' \<and>
   \<not> HasPrefix ''metrics'' ''//'' \<and> \<not> HasPrefix (trimSlashPrefix ''metrics'') ''/''"
proof -
  let ?esc = "\<lambda>u. if RawPath u = [] then Path u else RawPath u"
  let ?a1 = "\<lparr>Scheme = ''http'', Host = ''h'', Path = ''/api/v1'', RawPath = [], RawQuery = []\<rparr>"
  let ?b1 = "\<lparr>Scheme = ''http'', Host = ''h'', Path = ''/metrics'', RawPath = [], RawQuery = []\<rparr>"
  let ?a2 = "\<lparr>Scheme = ''http'', Host = ''h'', Path = ''/a b/'', RawPath = ''/a%20b/'', RawQuery = []\<rparr>"
  let ?b2 = "\<lparr>Scheme = ''http'', Host = ''h'', Path = ''/c'', RawPath = [], RawQuery = []\<rparr>"
  note plain = joinURLPath_single_slash [of ?esc ?a1 ?b1 "''/api/v1/''" "''metrics''"]
  note escaped = joinURLPath_single_slash [of ?esc ?a2 ?b2 "''/api/v1/''" "''metrics''"]
  have c1: "joinURLPath ?esc ?a1 ?b1 = Some (''/api/v1/metrics'', [])"
    using plain by simp
  have sfx: "\<not> HasSuffix ''/api/v1/'' ''//''"
    by (simp add: HasSuffix_def suffix_to_prefix)
  have pfx: "\<not> HasPrefix ''metrics'' ''//''"
    by (simp add: HasPrefix_def)
  have c4: "\<not> HasSuffix (trimSlashSuffix ''/api/v1/'') ''/''"
    using plain sfx by blast
  have c5: "\<not> HasPrefix (trimSlashPrefix ''metrics'') ''/''"
    using plain pfx by blast
  have c2: "joinURLPath ?esc ?a2 ?b2 = Some (''/a b/c'', ''/a%20b/c'')"
    by (simp add: joinURLPath_def HasSuffix_def HasPrefix_def suffix_to_prefix Let_def)
  have "unescape (?esc ?a2) = Some (Path ?a2)" "unescape (?esc ?b2) = Some (Path ?b2)"
    by code_simp+
  moreover have "\<not> (RawPath ?a2 = [] \<and> RawPath ?b2 = [])"
    by simp
  ultimately obtain p r where "joinURLPath ?esc ?a2 ?b2 = Some (p, r)" "unescape r = Some p"
    using escaped by blast
  with c2 have c3: "unescape ''/a%20b/c'' = Some ''/a b/c''"
    by simp
  from c1 c2 c3 sfx c4 pfx c5 show ?thesis
    by blast
qed

text \<open>
  Claim C6 as stated fails: the join of \<open>/api/v1/\<close> and \<open>//metrics\<close> has two slashes
  at the joint, since only one slash is taken from the right path.
\<close>

theorem singleJoiningSlash_double_slash:
  "singleJoiningSlash ''/api/v1/'' ''//metrics'' = ''/api/v1//metrics'' \<and>
   joinURLPath Path
     \<lparr>Scheme = ''http'', Host = ''h'', Path = ''/api/v1/'', RawPath = [], RawQuery = []\<rparr>
     \<lparr>Scheme = ''http'', Host = ''h'', Path = ''//metrics'', RawPath = [], RawQuery = []\<rparr>
     = Some (''/api/v1//metrics'', [])"
  by code_simp

section \<open>The refresh loop\<close>

lemma retryInterval_value: "retryInterval = 5000000000"
  by (simp add: retryInterval_def wrap64_def Second_def)

lemma timerWait_retryInterval: "timerWait retryInterval = retryInterval"
  by (simp add: timerWait_def retryInterval_value)

lemma publish_success:
  assumes "publish wr rn cfg t fs = (None, fs')"
  shows "wr = Written \<and> rn = Renamed \<and>
         fs' = (if tempFile cfg = cfgFile cfg then fs(cfgFile cfg \<mapsto> AccessToken t)
                else (fs(tempFile cfg := None))(cfgFile cfg \<mapsto> AccessToken t))"
  using assms
  by (cases wr; cases rn) (auto simp: publish_def WriteFile_def Rename_def split: if_splits)

lemma publish_no_fault:
  "publish Written Renamed cfg t fs =
     (None, if tempFile cfg = cfgFile cfg then fs(cfgFile cfg \<mapsto> AccessToken t)
            else (fs(tempFile cfg := None))(cfgFile cfg \<mapsto> AccessToken t))"
  by (auto simp: publish_def WriteFile_def Rename_def)

lemma publish_failure_keeps_file:
  assumes "publish wr rn cfg t fs = (Some line, fs')" and "tempFile cfg \<noteq> cfgFile cfg"
  shows "fs' (cfgFile cfg) = fs (cfgFile cfg)"
  using assms
  by (cases wr; cases rn)
     (auto simp: publish_def WriteFile_def Rename_def split: if_splits option.splits)

lemma loopBody_published:
  assumes "fetched e = Inr t" and "Valid (validClock e) t"
    and "publish (writeOutcome e) (renameOutcome e) cfg t (files s) = (None, fs')"
  shows "loopBody cfg e s =
           (wrap64 (Time_Sub (Expiry t) (now e) - margin cfg), s\<lparr>files := fs'\<rparr>)"
  using assms by (simp add: loopBody_def)

lemma wrap64_id: "minDuration \<le> x \<Longrightarrow> x \<le> maxDuration \<Longrightarrow> wrap64 x = x"
  by (simp add: wrap64_def minDuration_def maxDuration_def)

lemma Time_Sub_exact:
  "minDuration \<le> t - u \<Longrightarrow> t - u \<le> maxDuration \<Longrightarrow> Time_Sub t u = t - u"
  by (simp add: Time_Sub_def)

lemma example_publish:
  "publish Written Renamed exampleConfig \<lparr>AccessToken = tok, Expiry = x\<rparr> Map.empty =
     (None, [''./tmp/token'' \<mapsto> tok])"
  by (simp add: publish_def WriteFile_def Rename_def exampleConfig_def)

lemma loopBody_fetch_error:
  "fetched e = Inl err \<Longrightarrow>
   loopBody cfg e s = (retryInterval, s\<lparr>logs := logs s @ [(''failed to get token'', Err err)]\<rparr>)"
  by (simp add: loopBody_def)

lemma refreshLoop_returns_iff:
  "(\<exists>s'. refreshLoop cfg ps s = Returned s') \<longleftrightarrow> (\<exists>p \<in> set ps. ctxDone p)"
proof (induction ps arbitrary: s)
  case Nil
  show ?case by simp
next
  case (Cons p ps)
  obtain d s1 where b: "loopBody cfg p s = (d, s1)"
    by (cases "loopBody cfg p s")
  show ?case
  proof (cases "ctxDone p")
    case True
    with b show ?thesis by simp
  next
    case False
    with b Cons.IH [of "s1\<lparr>waits := waits s1 @ [timerWait d]\<rparr>"] show ?thesis
      by simp
  qed
qed

text \<open>
  Claim C1, as the program has it. After a pass in which the fetched token is valid
  and is published, and for which \<open>expiry - now\<close> and \<open>expiry - now - margin\<close> both
  fit a 64-bit duration, the duration handed to the timer is \<open>expiry - now - margin\<close>,
  the timer waits the larger of that duration and zero (it fires at once when the
  duration is zero or negative), and the loop goes on to the next pass after that
  wait.
\<close>

theorem next_wake_after_publish:
  assumes f: "fetched e = Inr t" and v: "Valid (validClock e) t"
    and p: "publish (writeOutcome e) (renameOutcome e) cfg t (files s) = (None, fs')"
    and r1: "minDuration \<le> Expiry t - now e" "Expiry t - now e \<le> maxDuration"
    and r2: "minDuration \<le> Expiry t - now e - margin cfg"
            "Expiry t - now e - margin cfg \<le> maxDuration"
  shows "loopBody cfg e s = (Expiry t - now e - margin cfg, s\<lparr>files := fs'\<rparr>) \<and>
         timerWait (Expiry t - now e - margin cfg) = max 0 (Expiry t - now e - margin cfg) \<and>
         (\<not> ctxDone e \<longrightarrow>
            refreshLoop cfg (e # es) s =
              refreshLoop cfg es
                (s\<lparr>files := fs', waits := waits s @ [max 0 (Expiry t - now e - margin cfg)]\<rparr>))"
proof -
  have d: "wrap64 (Time_Sub (Expiry t) (now e) - margin cfg) = Expiry t - now e - margin cfg"
    using r1 r2 by (simp add: Time_Sub_exact wrap64_id)
  have b: "loopBody cfg e s = (Expiry t - now e - margin cfg, s\<lparr>files := fs'\<rparr>)"
    using loopBody_published [OF f v p] d by simp
  have w: "timerWait (Expiry t - now e - margin cfg) = max 0 (Expiry t - now e - margin cfg)"
    by (simp add: timerWait_def max_def)
  from b w show ?thesis by simp
qed

text \<open>
  The theorem of C1 on the scenarios of the specification: with a margin of five
  minutes, a token that expires in ten minutes is refreshed after five minutes, and a
  token that expires in thirty seconds at once.
\<close>

theorem next_wake_after_publish_witness:
  "loopBody exampleConfig
     \<lparr>fetched = Inr \<lparr>AccessToken = ''abc'', Expiry = 63900000600000000000\<rparr>,
      validClock = 63900000000000000000, writeOutcome = Written, renameOutcome = Renamed,
      now = 63900000000000000000, ctxDone = False\<rparr>
     \<lparr>files = Map.empty, logs = [], waits = []\<rparr>
     = (300000000000, \<lparr>files = [''./tmp/token'' \<mapsto> ''abc''], logs = [], waits = []\<rparr>) \<and>
   refreshLoop exampleConfig
     [\<lparr>fetched = Inr \<lparr>AccessToken = ''abc'', Expiry = 63900000600000000000\<rparr>,
       validClock = 63900000000000000000, writeOutcome = Written, renameOutcome = Renamed,
       now = 63900000000000000000, ctxDone = False\<rparr>]
     \<lparr>files = Map.empty, logs = [], waits = []\<rparr>
     = Running \<lparr>files = [''./tmp/token'' \<mapsto> ''abc''], logs = [], waits = [300000000000]\<rparr> \<and>
   loopBody exampleConfig
     \<lparr>fetched = Inr \<lparr>AccessToken = ''abc'', Expiry = 63900000030000000000\<rparr>,
      validClock = 63900000000000000000, writeOutcome = Written, renameOutcome = Renamed,
      now = 63900000000000000000, ctxDone = False\<rparr>
     \<lparr>files = Map.empty, logs = [], waits = []\<rparr>
     = (- 270000000000, \<lparr>files = [''./tmp/token'' \<mapsto> ''abc''], logs = [], waits = []\<rparr>) \<and>
   refreshLoop exampleConfig
     [\<lparr>fetched = Inr \<lparr>AccessToken = ''abc'', Expiry = 63900000030000000000\<rparr>,
       validClock = 63900000000000000000, writeOutcome = Written, renameOutcome = Renamed,
       now = 63900000000000000000, ctxDone = False\<rparr>]
     \<lparr>files = Map.empty, logs = [], waits = []\<rparr>
     = Running \<lparr>files = [''./tmp/token'' \<mapsto> ''abc''], logs = [], waits = [0]\<rparr>"
proof -
  let ?t1 = "\<lparr>AccessToken = ''abc'', Expiry = 63900000600000000000\<rparr>"
  let ?t2 = "\<lparr>AccessToken = ''abc'', Expiry = 63900000030000000000\<rparr>"
  let ?e1 = "\<lparr>fetched = Inr ?t1,
      validClock = 63900000000000000000, writeOutcome = Written, renameOutcome = Renamed,
      now = 63900000000000000000, ctxDone = False\<rparr>"
  let ?e2 = "\<lparr>fetched = Inr ?t2,
      validClock = 63900000000000000000, writeOutcome = Written, renameOutcome = Renamed,
      now = 63900000000000000000, ctxDone = False\<rparr>"
  let ?s = "\<lparr>files = Map.empty, logs = [], waits = []\<rparr>"
  have m: "margin exampleConfig = 300000000000"
    by (simp add: exampleConfig_def)
  have v: "Valid (validClock ?e1) ?t1" "Valid (validClock ?e2) ?t2"
    by (simp_all add: Valid_def expired_def expiryDelta_def Second_def)
  have p1: "publish (writeOutcome ?e1) (renameOutcome ?e1) exampleConfig ?t1 (files ?s)
              = (None, [''./tmp/token'' \<mapsto> ''abc''])"
    by (simp add: example_publish)
  have p2: "publish (writeOutcome ?e2) (renameOutcome ?e2) exampleConfig ?t2 (files ?s)
              = (None, [''./tmp/token'' \<mapsto> ''abc''])"
    by (simp add: example_publish)
  have r1: "minDuration \<le> Expiry ?t1 - now ?e1" "Expiry ?t1 - now ?e1 \<le> maxDuration"
    "minDuration \<le> Expiry ?t1 - now ?e1 - margin exampleConfig"
    "Expiry ?t1 - now ?e1 - margin exampleConfig \<le> maxDuration"
    by (simp_all add: m minDuration_def maxDuration_def)
  have r2: "minDuration \<le> Expiry ?t2 - now ?e2" "Expiry ?t2 - now ?e2 \<le> maxDuration"
    "minDuration \<le> Expiry ?t2 - now ?e2 - margin exampleConfig"
    "Expiry ?t2 - now ?e2 - margin exampleConfig \<le> maxDuration"
    by (simp_all add: m minDuration_def maxDuration_def)
  have f: "fetched ?e1 = Inr ?t1" "fetched ?e2 = Inr ?t2"
    by simp_all
  from next_wake_after_publish [OF f(1) v(1) p1 r1, of "[]"]
       next_wake_after_publish [OF f(2) v(2) p2 r2, of "[]"]
  show ?thesis
    by (simp add: m)
qed

text \<open>
  Claim C1 as stated fails for a valid token without an expiry (the zero time, which
  \<open>Valid\<close> accepts): \<open>expiry - now - margin\<close> is negative, so the claim has the next
  fetch at once, but \<open>Time.Sub\<close> gives the smallest duration and the 64-bit
  subtraction of the margin wraps around to about 292 years.
\<close>

theorem never_expiring_token_sleeps:
  "Valid 63900000000000000000 \<lparr>AccessToken = ''abc'', Expiry = 0\<rparr> \<and>
   loopBody exampleConfig
     \<lparr>fetched = Inr \<lparr>AccessToken = ''abc'', Expiry = 0\<rparr>,
      validClock = 63900000000000000000, writeOutcome = Written, renameOutcome = Renamed,
      now = 63900000000000000000, ctxDone = False\<rparr>
     \<lparr>files = Map.empty, logs = [], waits = []\<rparr>
     = (9223371736854775808, \<lparr>files = [''./tmp/token'' \<mapsto> ''abc''], logs = [], waits = []\<rparr>) \<and>
   timerWait 9223371736854775808 = 9223371736854775808 \<and>
   max 0 (0 - 63900000000000000000 - margin exampleConfig) = 0"
proof -
  have m: "margin exampleConfig = 300000000000"
    by (simp add: exampleConfig_def)
  have v: "Valid 63900000000000000000 \<lparr>AccessToken = ''abc'', Expiry = 0\<rparr>"
    by (simp add: Valid_def expired_def)
  have d: "wrap64 (Time_Sub 0 63900000000000000000 - 300000000000) = 9223371736854775808"
    by (simp add: Time_Sub_def wrap64_def minDuration_def maxDuration_def)
  from v d show ?thesis
    by (simp add: loopBody_def example_publish m timerWait_def)
qed

text \<open>
  Claim C2. In a pass whose fetch returns an error, the loop logs the error with the
  message \<open>failed to get token\<close> and hands \<open>retryInterval\<close> (five seconds) to the
  timer; unless the context is done, it waits exactly that long and starts the next
  pass; and the loop returns on some pass if and only if that pass's \<open>select\<close>
  receives from \<open>ctx.Done\<close>, whatever the fetches return.
\<close>

theorem fetch_error_retries:
  assumes "fetched e = Inl err"
  shows "loopBody cfg e s =
           (retryInterval, s\<lparr>logs := logs s @ [(''failed to get token'', Err err)]\<rparr>) \<and>
         retryInterval = 5 * Second \<and>
         (\<not> ctxDone e \<longrightarrow>
            refreshLoop cfg (e # es) s =
              refreshLoop cfg es
                (s\<lparr>logs := logs s @ [(''failed to get token'', Err err)],
                   waits := waits s @ [retryInterval]\<rparr>)) \<and>
         (ctxDone e \<longrightarrow>
            refreshLoop cfg (e # es) s =
              Returned (s\<lparr>logs := logs s @ [(''failed to get token'', Err err)]\<rparr>)) \<and>
         ((\<exists>s'. refreshLoop cfg ps s0 = Returned s') \<longleftrightarrow> (\<exists>p \<in> set ps. ctxDone p))"
proof -
  note b = loopBody_fetch_error [OF assms, of cfg s]
  have "retryInterval = 5 * Second"
    by (simp add: retryInterval_def wrap64_def Second_def)
  moreover from b have "\<not> ctxDone e \<Longrightarrow>
      refreshLoop cfg (e # es) s =
        refreshLoop cfg es
          (s\<lparr>logs := logs s @ [(''failed to get token'', Err err)],
             waits := waits s @ [retryInterval]\<rparr>)"
    by (simp add: timerWait_retryInterval)
  moreover from b have "ctxDone e \<Longrightarrow>
      refreshLoop cfg (e # es) s =
        Returned (s\<lparr>logs := logs s @ [(''failed to get token'', Err err)]\<rparr>)"
    by simp
  ultimately show ?thesis
    using b refreshLoop_returns_iff [of cfg ps s0] by blast
qed

text \<open>
  The theorem of C2 on a fetch that fails with \<open>connection refused\<close>: the loop is
  still running after a wait of five seconds, and returns when the context is done.
\<close>

theorem fetch_error_retries_witness:
  "refreshLoop exampleConfig
     [\<lparr>fetched = Inl ''connection refused'', validClock = 0, writeOutcome = Written,
       renameOutcome = Renamed, now = 0, ctxDone = False\<rparr>]
     \<lparr>files = [''./tmp/token'' \<mapsto> ''old''], logs = [], waits = []\<rparr>
     = Running \<lparr>files = [''./tmp/token'' \<mapsto> ''old''],
                logs = [(''failed to get token'', Err ''connection refused'')],
                waits = [5000000000]\<rparr> \<and>
   refreshLoop exampleConfig
     [\<lparr>fetched = Inl ''connection refused'', validClock = 0, writeOutcome = Written,
       renameOutcome = Renamed, now = 0, ctxDone = True\<rparr>]
     \<lparr>files = [''./tmp/token'' \<mapsto> ''old''], logs = [], waits = []\<rparr>
     = Returned \<lparr>files = [''./tmp/token'' \<mapsto> ''old''],
                 logs = [(''failed to get token'', Err ''connection refused'')],
                 waits = []\<rparr>"
proof -
  let ?e = "\<lparr>fetched = Inl ''connection refused'', validClock = 0, writeOutcome = Written,
       renameOutcome = Renamed, now = 0, ctxDone = False\<rparr>"
  let ?s = "\<lparr>files = [''./tmp/token'' \<mapsto> ''old''], logs = [], waits = []\<rparr>"
  have f: "fetched ?e = Inl ''connection refused''" "fetched (?e\<lparr>ctxDone := True\<rparr>) = Inl ''connection refused''"
    by simp_all
  from fetch_error_retries [OF f(1), of exampleConfig ?s "[]" "[]" ?s]
       fetch_error_retries [OF f(2), of exampleConfig ?s "[]" "[]" ?s]
  show ?thesis
    by (simp add: retryInterval_value timerWait_def)
qed

text \<open>
  Claim C4, as the program has it. In a pass whose fetched token is invalid, or in
  which the write of the temporary file or the rename fails, the duration handed to
  the timer is \<open>retryInterval\<close>. An invalid token leaves every file as it is. When
  the temporary path differs from the path of the token file, a failed write or
  rename leaves the contents of the token file as they are.
\<close>

theorem failed_cycle_keeps_file:
  assumes f: "fetched e = Inr t"
    and bad: "\<not> Valid (validClock e) t \<or>
              (\<exists>line fs'. publish (writeOutcome e) (renameOutcome e) cfg t (files s) = (Some line, fs'))"
  shows "fst (loopBody cfg e s) = retryInterval \<and>
         (\<not> Valid (validClock e) t \<longrightarrow> files (snd (loopBody cfg e s)) = files s) \<and>
         (tempFile cfg \<noteq> cfgFile cfg \<longrightarrow>
            files (snd (loopBody cfg e s)) (cfgFile cfg) = files s (cfgFile cfg))"
proof (cases "Valid (validClock e) t")
  case False
  with f show ?thesis by (simp add: loopBody_def)
next
  case True
  with bad obtain line fs' where
    p: "publish (writeOutcome e) (renameOutcome e) cfg t (files s) = (Some line, fs')"
    by blast
  with f True have "loopBody cfg e s = (retryInterval, s\<lparr>files := fs', logs := logs s @ [line]\<rparr>)"
    by (simp add: loopBody_def)
  with True publish_failure_keeps_file [OF p] show ?thesis by simp
qed

text \<open>
  The theorem of C4 on an invalid token (an empty access token), on a write that
  fails after one byte and on a rename that fails: the token file keeps \<open>old\<close>.
\<close>

theorem failed_cycle_keeps_file_witness:
  "loopBody exampleConfig
     \<lparr>fetched = Inr \<lparr>AccessToken = [], Expiry = 0\<rparr>, validClock = 63900000000000000000,
      writeOutcome = Written, renameOutcome = Renamed, now = 63900000000000000000,
      ctxDone = False\<rparr>
     \<lparr>files = [''./tmp/token'' \<mapsto> ''old''], logs = [], waits = []\<rparr>
     = (5000000000, \<lparr>files = [''./tmp/token'' \<mapsto> ''old''],
                      logs = [(''token is invalid'', Exp 0)], waits = []\<rparr>) \<and>
   fst (loopBody exampleConfig
     \<lparr>fetched = Inr \<lparr>AccessToken = ''new'', Expiry = 0\<rparr>, validClock = 63900000000000000000,
      writeOutcome = WriteError 1 ''no space left on device'', renameOutcome = Renamed,
      now = 63900000000000000000, ctxDone = False\<rparr>
     \<lparr>files = [''./tmp/token'' \<mapsto> ''old''], logs = [], waits = []\<rparr>) = 5000000000 \<and>
   files (snd (loopBody exampleConfig
     \<lparr>fetched = Inr \<lparr>AccessToken = ''new'', Expiry = 0\<rparr>, validClock = 63900000000000000000,
      writeOutcome = WriteError 1 ''no space left on device'', renameOutcome = Renamed,
      now = 63900000000000000000, ctxDone = False\<rparr>
     \<lparr>files = [''./tmp/token'' \<mapsto> ''old''], logs = [], waits = []\<rparr>)) ''./tmp/token''
     = Some ''old'' \<and>
   files (snd (loopBody exampleConfig
     \<lparr>fetched = Inr \<lparr>AccessToken = ''new'', Expiry = 0\<rparr>, validClock = 63900000000000000000,
      writeOutcome = Written, renameOutcome = RenameError ''permission denied'',
      now = 63900000000000000000, ctxDone = False\<rparr>
     \<lparr>files = [''./tmp/token'' \<mapsto> ''old''], logs = [], waits = []\<rparr>)) ''./tmp/token''
     = Some ''old''"
proof -
  let ?s = "\<lparr>files = [''./tmp/token'' \<mapsto> ''old''], logs = [], waits = []\<rparr>"
  let ?empty = "\<lparr>AccessToken = [], Expiry = 0\<rparr>"
  let ?t = "\<lparr>AccessToken = ''new'', Expiry = 0\<rparr>"
  let ?einv = "\<lparr>fetched = Inr ?empty, validClock = 63900000000000000000,
      writeOutcome = Written, renameOutcome = Renamed, now = 63900000000000000000,
      ctxDone = False\<rparr>"
  let ?e1 = "\<lparr>fetched = Inr ?t, validClock = 63900000000000000000,
      writeOutcome = WriteError 1 ''no space left on device'', renameOutcome = Renamed,
      now = 63900000000000000000, ctxDone = False\<rparr>"
  let ?e2 = "\<lparr>fetched = Inr ?t, validClock = 63900000000000000000,
      writeOutcome = Written, renameOutcome = RenameError ''permission denied'',
      now = 63900000000000000000, ctxDone = False\<rparr>"
  have names: "tempFile exampleConfig \<noteq> cfgFile exampleConfig"
    "cfgFile exampleConfig = ''./tmp/token''"
    by (simp_all add: exampleConfig_def)
  have f: "fetched ?einv = Inr ?empty" "fetched ?e1 = Inr ?t" "fetched ?e2 = Inr ?t"
    by simp_all
  have b0: "\<not> Valid (validClock ?einv) ?empty \<or>
      (\<exists>line fs'. publish (writeOutcome ?einv) (renameOutcome ?einv) exampleConfig ?empty (files ?s)
         = (Some line, fs'))"
    by (simp add: Valid_def)
  have b1: "\<not> Valid (validClock ?e1) ?t \<or>
      (\<exists>line fs'. publish (writeOutcome ?e1) (renameOutcome ?e1) exampleConfig ?t (files ?s)
         = (Some line, fs'))"
    by (simp add: publish_def WriteFile_def)
  have b2: "\<not> Valid (validClock ?e2) ?t \<or>
      (\<exists>line fs'. publish (writeOutcome ?e2) (renameOutcome ?e2) exampleConfig ?t (files ?s)
         = (Some line, fs'))"
    by (simp add: publish_def WriteFile_def Rename_def)
  have l0: "loopBody exampleConfig ?einv ?s
      = (fst (loopBody exampleConfig ?einv ?s),
         \<lparr>files = files (snd (loopBody exampleConfig ?einv ?s)),
          logs = [(''token is invalid'', Exp 0)], waits = []\<rparr>)"
    by (simp add: loopBody_def Valid_def)
  from failed_cycle_keeps_file [OF f(1) b0] failed_cycle_keeps_file [OF f(2) b1]
    failed_cycle_keeps_file [OF f(3) b2] names l0
  show ?thesis
    by (simp add: retryInterval_value Valid_def)
qed

text \<open>
  Claim C4 as stated fails when \<open>--temp-file\<close> names the token file itself: the
  write goes to the token file, and a write that fails after one byte leaves that
  byte in place of the previous token.
\<close>

theorem same_path_write_failure_truncates:
  "Valid 63900000000000000000 \<lparr>AccessToken = ''new'', Expiry = 0\<rparr> \<and>
   loopBody (exampleConfig\<lparr>tempFile := ''./tmp/token''\<rparr>)
     \<lparr>fetched = Inr \<lparr>AccessToken = ''new'', Expiry = 0\<rparr>, validClock = 63900000000000000000,
      writeOutcome = WriteError 1 ''no space left on device'', renameOutcome = Renamed,
      now = 63900000000000000000, ctxDone = False\<rparr>
     \<lparr>files = [''./tmp/token'' \<mapsto> ''old''], logs = [], waits = []\<rparr>
     = (retryInterval,
        \<lparr>files = [''./tmp/token'' \<mapsto> ''n''],
         logs = [(''failed to write token to temporary file'', Err ''no space left on device'')],
         waits = []\<rparr>)"
  by (simp add: loopBody_def publish_def WriteFile_def Valid_def expired_def exampleConfig_def)

text \<open>
  Claim C5. After a successful publish of a token the token file holds exactly the
  bytes of the access token; so it does after a pass of the loop that fetches a valid
  token and publishes it.
\<close>

theorem publish_writes_access_token:
  assumes "publish wr rn cfg t fs = (None, fs')"
  shows "fs' (cfgFile cfg) = Some (AccessToken t) \<and>
         (fetched e = Inr t \<and> Valid (validClock e) t \<and> writeOutcome e = wr \<and>
          renameOutcome e = rn \<and> files s = fs \<longrightarrow>
            files (snd (loopBody cfg e s)) (cfgFile cfg) = Some (AccessToken t))"
proof -
  from publish_success [OF assms] have c: "fs' (cfgFile cfg) = Some (AccessToken t)"
    by simp
  moreover have "files (snd (loopBody cfg e s)) (cfgFile cfg) = Some (AccessToken t)"
    if "fetched e = Inr t" "Valid (validClock e) t" "writeOutcome e = wr"
       "renameOutcome e = rn" "files s = fs"
    using that assms c by (simp add: loopBody_def)
  ultimately show ?thesis by blast
qed

text \<open>
  The theorem of C5 on the token \<open>abc\<close>, published over the previous token
  \<open>old\<close>.
\<close>

theorem publish_writes_access_token_witness:
  "publish Written Renamed exampleConfig \<lparr>AccessToken = ''abc'', Expiry = 0\<rparr>
     [''./tmp/token'' \<mapsto> ''old'']
     = (None, [''./tmp/token'' \<mapsto> ''abc'']) \<and>
   [''./tmp/token'' \<mapsto> ''abc''] (cfgFile exampleConfig) = Some ''abc'' \<and>
   files (snd (loopBody exampleConfig
     \<lparr>fetched = Inr \<lparr>AccessToken = ''abc'', Expiry = 0\<rparr>, validClock = 63900000000000000000,
      writeOutcome = Written, renameOutcome = Renamed, now = 63900000000000000000,
      ctxDone = False\<rparr>
     \<lparr>files = [''./tmp/token'' \<mapsto> ''old''], logs = [], waits = []\<rparr>)) (cfgFile exampleConfig)
     = Some ''abc''"
proof -
  let ?t = "\<lparr>AccessToken = ''abc'', Expiry = 0\<rparr>"
  let ?s = "\<lparr>files = [''./tmp/token'' \<mapsto> ''old''], logs = [], waits = []\<rparr>"
  let ?e = "\<lparr>fetched = Inr ?t, validClock = 63900000000000000000,
      writeOutcome = Written, renameOutcome = Renamed, now = 63900000000000000000,
      ctxDone = False\<rparr>"
  have p: "publish Written Renamed exampleConfig ?t [''./tmp/token'' \<mapsto> ''old'']
             = (None, [''./tmp/token'' \<mapsto> ''abc''])"
    by (simp add: publish_def WriteFile_def Rename_def exampleConfig_def)
  have v: "Valid (validClock ?e) ?t"
    by (simp add: Valid_def expired_def)
  from publish_writes_access_token [OF p, of ?e ?s] p v show ?thesis
    by simp
qed

text \<open>
  Claim C9. When the operating system reports no error, publishing a token twice in
  a row succeeds both times and the second publish leaves the files as the first one
  left them; and whenever two publishes of the same token in a row succeed, the
  second one changes no file.
\<close>

theorem publish_idempotent:
  "(\<exists>fs1. publish Written Renamed cfg t fs = (None, fs1) \<and>
          publish Written Renamed cfg t fs1 = (None, fs1) \<and>
          fs1 (cfgFile cfg) = Some (AccessToken t)) \<and>
   (publish wr rn cfg t fs = (None, fs1) \<and> publish wr' rn' cfg t fs1 = (None, fs2) \<longrightarrow>
      fs2 = fs1)"
proof -
  have twice: "fs2 = fs1"
    if a: "publish wr rn cfg t fs = (None, fs1)" and b: "publish wr' rn' cfg t fs1 = (None, fs2)"
    using publish_success [OF a] publish_success [OF b] by (auto simp: fun_upd_twist)
  have "\<exists>fs1. publish Written Renamed cfg t fs = (None, fs1) \<and>
          publish Written Renamed cfg t fs1 = (None, fs1) \<and>
          fs1 (cfgFile cfg) = Some (AccessToken t)"
    by (auto simp: publish_no_fault fun_upd_twist)
  with twice show ?thesis by blast
qed

text \<open>
  The theorem of C9 on the token \<open>abc\<close>: the second publish finds and leaves
  \<open>abc\<close> in the token file.
\<close>

theorem publish_idempotent_witness:
  "publish Written Renamed exampleConfig \<lparr>AccessToken = ''abc'', Expiry = 0\<rparr>
     [''./tmp/token'' \<mapsto> ''old'']
     = (None, [''./tmp/token'' \<mapsto> ''abc'']) \<and>
   publish Written Renamed exampleConfig \<lparr>AccessToken = ''abc'', Expiry = 0\<rparr>
     [''./tmp/token'' \<mapsto> ''abc'']
     = (None, [''./tmp/token'' \<mapsto> ''abc''])"
proof -
  let ?t = "\<lparr>AccessToken = ''abc'', Expiry = 0\<rparr>"
  have p: "publish Written Renamed exampleConfig ?t [''./tmp/token'' \<mapsto> ''old'']
             = (None, [''./tmp/token'' \<mapsto> ''abc''])"
    by (simp add: publish_def WriteFile_def Rename_def exampleConfig_def)
  obtain fs2 where q: "publish Written Renamed exampleConfig ?t [''./tmp/token'' \<mapsto> ''abc'']
             = (None, fs2)"
    by (simp add: publish_def WriteFile_def Rename_def exampleConfig_def)
  from publish_idempotent [of exampleConfig ?t "[''./tmp/token'' \<mapsto> ''old'']"
      Written Renamed "[''./tmp/token'' \<mapsto> ''abc'']" Written Renamed fs2] p q
  have "fs2 = [''./tmp/token'' \<mapsto> ''abc'']"
    by blast
  with p q show ?thesis by simp
qed

section \<open>The parameters of the token endpoint\<close>

text \<open>
  Property X1. The parameters that \<open>main\<close> attaches to a fetch: the scopes when
  scopes are set; else the password grant when user name and password are both set;
  else the audience when it is set; else none. One set at most is attached.
\<close>

theorem EndpointParams_ccc:
  "EndpointParams (ccc cfg tokenURL) =
     (if scope cfg \<noteq> [] then [''scope'' \<mapsto> [strings_Join (scope cfg) '' '']]
      else if username (oidc cfg) \<noteq> [] \<and> password (oidc cfg) \<noteq> [] then
        [''username'' \<mapsto> [username (oidc cfg)],
         ''password'' \<mapsto> [password (oidc cfg)],
         ''grant_type'' \<mapsto> [''password'']]
      else if audience (oidc cfg) \<noteq> [] then [''audience'' \<mapsto> [audience (oidc cfg)]]
      else Map.empty)"
  by (simp add: ccc_def Let_def)

text \<open>
  Claim C3 at the input where the program departs from it: with a user name, a
  password and a scope configured, only the \<open>scope\<close> parameter is attached and no
  \<open>grant_type\<close>.
\<close>

theorem scope_replaces_password_grant:
  "EndpointParams
     (ccc (exampleConfig\<lparr>oidc := (oidc exampleConfig)\<lparr>username := ''user'', password := ''pass''\<rparr>,
                         scope := [''openid'']\<rparr>)
        ''http://localhost:4444/oauth2/token'')
     = [''scope'' \<mapsto> [''openid'']] \<and>
   EndpointParams
     (ccc (exampleConfig\<lparr>oidc := (oidc exampleConfig)\<lparr>username := ''user'', password := ''pass''\<rparr>,
                         scope := [''openid'']\<rparr>)
        ''http://localhost:4444/oauth2/token'') ''grant_type'' = None"
  by (simp add: ccc_def Let_def)

section \<open>Validation of the flags\<close>

text \<open>
  Claim C8. With neither \<open>--file\<close> nor a URL flag set, \<open>parseFlags\<close> returns an
  error (for a valid log level, the one that asks for \<open>--file\<close> or
  \<open>--upstream.url\<close>) and \<open>main\<close> ends before any network call. With both
  \<open>--url\<close> and \<open>--upstream.url\<close> set it returns an error as well. With \<open>--file\<close>
  and one URL flag set, a valid log level and a URL that parses, it returns a
  configuration with that file and that upstream URL.
\<close>

theorem parseFlags_file_or_url:
  "(file_flag fv = [] \<and> url_flag fv = [] \<and> upstream_url fv = [] \<longrightarrow>
      (\<exists>err. parseFlags url_Parse fv = Inl err \<and>
             main_startup url_Parse NewProvider fv = ([], Fatal err) \<and>
             (parseLevel (log_level fv) = Inr lvl \<longrightarrow>
                err = ''one of --file or --upstream.url is required''))) \<and>
   (url_flag fv \<noteq> [] \<and> upstream_url fv \<noteq> [] \<longrightarrow>
      (\<exists>err. parseFlags url_Parse fv = Inl err \<and>
             main_startup url_Parse NewProvider fv = ([], Fatal err) \<and>
             (parseLevel (log_level fv) = Inr lvl \<longrightarrow>
                err = ''use only one of --url or --upstream.url''))) \<and>
   (file_flag fv \<noteq> [] \<and> parseLevel (log_level fv) = Inr lvl \<and>
    (url_flag fv \<noteq> [] \<and> upstream_url fv = [] \<and> url_Parse (url_flag fv) = Inr u \<or>
     url_flag fv = [] \<and> upstream_url fv \<noteq> [] \<and> url_Parse (upstream_url fv) = Inr u) \<longrightarrow>
      (\<exists>cfg. parseFlags url_Parse fv = Inr cfg \<and> cfgFile cfg = file_flag fv \<and>
             url (upstream cfg) = Some u))"
proof (intro conjI impI)
  assume a: "file_flag fv = [] \<and> url_flag fv = [] \<and> upstream_url fv = []"
  show "\<exists>err. parseFlags url_Parse fv = Inl err \<and>
             main_startup url_Parse NewProvider fv = ([], Fatal err) \<and>
             (parseLevel (log_level fv) = Inr lvl \<longrightarrow>
                err = ''one of --file or --upstream.url is required'')"
    using a by (cases "parseLevel (log_level fv)") (auto simp: parseFlags_def main_startup_def)
next
  assume a: "url_flag fv \<noteq> [] \<and> upstream_url fv \<noteq> []"
  show "\<exists>err. parseFlags url_Parse fv = Inl err \<and>
             main_startup url_Parse NewProvider fv = ([], Fatal err) \<and>
             (parseLevel (log_level fv) = Inr lvl \<longrightarrow>
                err = ''use only one of --url or --upstream.url'')"
    using a by (cases "parseLevel (log_level fv)") (auto simp: parseFlags_def main_startup_def)
next
  assume a: "file_flag fv \<noteq> [] \<and> parseLevel (log_level fv) = Inr lvl \<and>
    (url_flag fv \<noteq> [] \<and> upstream_url fv = [] \<and> url_Parse (url_flag fv) = Inr u \<or>
     url_flag fv = [] \<and> upstream_url fv \<noteq> [] \<and> url_Parse (upstream_url fv) = Inr u)"
  show "\<exists>cfg. parseFlags url_Parse fv = Inr cfg \<and> cfgFile cfg = file_flag fv \<and>
             url (upstream cfg) = Some u"
    using a by (auto simp: parseFlags_def)
qed

text \<open>
  The theorem of C8 on the flags of the integration test and on three variations
  of them.
\<close>

theorem parseFlags_file_or_url_witness:
  "parseFlags exampleParse (exampleFlags\<lparr>file_flag := [], url_flag := []\<rparr>)
     = Inl ''one of --file or --upstream.url is required'' \<and>
   main_startup exampleParse (\<lambda>issuer. Inr (issuer @ ''oauth2/token''))
     (exampleFlags\<lparr>file_flag := [], url_flag := []\<rparr>)
     = ([], Fatal ''one of --file or --upstream.url is required'') \<and>
   parseFlags exampleParse (exampleFlags\<lparr>upstream_url := ''http://127.0.0.1:8443''\<rparr>)
     = Inl ''use only one of --url or --upstream.url'' \<and>
   (\<exists>cfg. parseFlags exampleParse exampleFlags = Inr cfg \<and>
          cfgFile cfg = ''./tmp/token'' \<and>
          url (upstream cfg) =
            Some \<lparr>Scheme = ''http'', Host = ''127.0.0.1:8443'', Path = [], RawPath = [],
                  RawQuery = []\<rparr>) \<and>
   (\<exists>cfg. parseFlags exampleParse
            (exampleFlags\<lparr>url_flag := [], upstream_url := ''http://127.0.0.1:8443''\<rparr>) = Inr cfg \<and>
          cfgFile cfg = ''./tmp/token'' \<and>
          url (upstream cfg) =
            Some \<lparr>Scheme = ''http'', Host = ''127.0.0.1:8443'', Path = [], RawPath = [],
                  RawQuery = []\<rparr>)"
proof -
  let ?N = "\<lambda>issuer. Inr (issuer @ ''oauth2/token'') :: error + string"
  let ?u = "\<lparr>Scheme = ''http'', Host = ''127.0.0.1:8443'', Path = [], RawPath = [],
             RawQuery = []\<rparr>"
  let ?neither = "exampleFlags\<lparr>file_flag := [], url_flag := []\<rparr>"
  let ?both = "exampleFlags\<lparr>upstream_url := ''http://127.0.0.1:8443''\<rparr>"
  let ?other = "exampleFlags\<lparr>url_flag := [], upstream_url := ''http://127.0.0.1:8443''\<rparr>"
  have lv: "parseLevel (log_level ?neither) = Inr AllowInfo"
    "parseLevel (log_level ?both) = Inr AllowInfo"
    "parseLevel (log_level exampleFlags) = Inr AllowInfo"
    "parseLevel (log_level ?other) = Inr AllowInfo"
    by (simp_all add: exampleFlags_def parseLevel_def)
  have h1: "file_flag ?neither = [] \<and> url_flag ?neither = [] \<and> upstream_url ?neither = []"
    by (simp add: exampleFlags_def)
  have h2: "url_flag ?both \<noteq> [] \<and> upstream_url ?both \<noteq> []"
    by (simp add: exampleFlags_def)
  have h3: "file_flag exampleFlags \<noteq> [] \<and> parseLevel (log_level exampleFlags) = Inr AllowInfo \<and>
    (url_flag exampleFlags \<noteq> [] \<and> upstream_url exampleFlags = [] \<and>
       exampleParse (url_flag exampleFlags) = Inr ?u \<or>
     url_flag exampleFlags = [] \<and> upstream_url exampleFlags \<noteq> [] \<and>
       exampleParse (upstream_url exampleFlags) = Inr ?u)"
    using lv(3) by (simp add: exampleFlags_def exampleParse_def)
  have h4: "file_flag ?other \<noteq> [] \<and> parseLevel (log_level ?other) = Inr AllowInfo \<and>
    (url_flag ?other \<noteq> [] \<and> upstream_url ?other = [] \<and>
       exampleParse (url_flag ?other) = Inr ?u \<or>
     url_flag ?other = [] \<and> upstream_url ?other \<noteq> [] \<and>
       exampleParse (upstream_url ?other) = Inr ?u)"
    using lv(4) by (simp add: exampleFlags_def exampleParse_def)
  have f: "file_flag exampleFlags = ''./tmp/token''" "file_flag ?other = ''./tmp/token''"
    by (simp_all add: exampleFlags_def)
  from parseFlags_file_or_url [of ?neither exampleParse ?N AllowInfo ?u] h1 lv(1)
  have c1: "parseFlags exampleParse ?neither = Inl ''one of --file or --upstream.url is required'' \<and>
            main_startup exampleParse ?N ?neither
              = ([], Fatal ''one of --file or --upstream.url is required'')"
    by blast
  from parseFlags_file_or_url [of ?both exampleParse ?N AllowInfo ?u] h2 lv(2)
  have c2: "parseFlags exampleParse ?both = Inl ''use only one of --url or --upstream.url''"
    by blast
  from parseFlags_file_or_url [of exampleFlags exampleParse ?N AllowInfo ?u] h3 f(1)
  have c3: "\<exists>cfg. parseFlags exampleParse exampleFlags = Inr cfg \<and>
          cfgFile cfg = ''./tmp/token'' \<and> url (upstream cfg) = Some ?u"
    by metis
  from parseFlags_file_or_url [of ?other exampleParse ?N AllowInfo ?u] h4 f(2)
  have c4: "\<exists>cfg. parseFlags exampleParse ?other = Inr cfg \<and>
          cfgFile cfg = ''./tmp/token'' \<and> url (upstream cfg) = Some ?u"
    by metis
  from c1 c2 c3 c4 show ?thesis by blast
qed

text \<open>
  Property X2. A configuration that \<open>parseFlags\<close> returns has the token file of
  \<open>--file\<close> and the temporary file of \<open>--temp-file\<close>, or the token file's path
  followed by \<open>.tmp\<close> when \<open>--temp-file\<close> is empty; with that default the
  temporary file is not the token file.
\<close>

theorem parseFlags_tempFile_default:
  assumes "parseFlags url_Parse fv = Inr cfg"
  shows "cfgFile cfg = file_flag fv \<and>
         tempFile cfg = (if temp_file fv = [] then file_flag fv @ ''.tmp'' else temp_file fv) \<and>
         (temp_file fv = [] \<longrightarrow> tempFile cfg \<noteq> cfgFile cfg)"
  using assms
  by (auto simp: parseFlags_def split: sum.splits if_splits)

text \<open>The theorem of X2 on the flags of the integration test.\<close>

theorem parseFlags_tempFile_default_witness:
  "\<exists>cfg. parseFlags exampleParse exampleFlags = Inr cfg \<and>
         cfgFile cfg = ''./tmp/token'' \<and> tempFile cfg = ''./tmp/token.tmp''"
proof -
  obtain cfg where c: "parseFlags exampleParse exampleFlags = Inr cfg"
    by (simp add: parseFlags_def parseLevel_def exampleFlags_def exampleParse_def)
  have "file_flag exampleFlags = ''./tmp/token''" "temp_file exampleFlags = []"
    by (simp_all add: exampleFlags_def)
  with parseFlags_tempFile_default [OF c] c show ?thesis
    by simp
qed

section \<open>The proxy's requests\<close>

lemma Director_result:
  "Director esc u r =
     (case joinURLPath esc u ((ReqURL r)\<lparr>Scheme := Scheme u, Host := Host u\<rparr>) of
        None \<Rightarrow> None
      | Some (p, rp) \<Rightarrow>
          Some (r\<lparr>ReqURL := (ReqURL r)\<lparr>Scheme := Scheme u, Host := Host u, Path := p, RawPath := rp\<rparr>,
                 ReqHost := Host u,
                 ReqHeader := Header_Add (ReqHeader r) prefixHeader ''/''\<rparr>))"
  by (simp add: Director_def Let_def split: option.splits)

lemma joinURLPath_plain:
  "RawPath a = [] \<Longrightarrow> RawPath b = [] \<Longrightarrow>
   joinURLPath esc a b = Some (singleJoiningSlash (Path a) (Path b), [])"
  by (simp add: joinURLPath_def)

lemma joinURLPath_defined:
  assumes "RawPath a = [] \<and> RawPath b = [] \<or>
           unescape (esc a) = Some (Path a) \<and> unescape (esc b) = Some (Path b)"
  shows "\<exists>p rp. joinURLPath esc a b = Some (p, rp)"
proof (cases "RawPath a = [] \<and> RawPath b = []")
  case True
  then show ?thesis by (simp add: joinURLPath_plain)
next
  case False
  with assms joinURLPath_escaped [of a b esc] show ?thesis by blast
qed

text \<open>
  Claim C7, as the program has it. Let the URLs have no \<open>RawPath\<close>, or escaped paths
  that decode to their \<open>Path\<close>. When the token source fails, the request is not
  forwarded: the round trip fails with the source's error. When the token source gives
  a token, the request is forwarded with the scheme and host of the upstream URL (in
  the URL and in the \<open>Host\<close> field) and with the joined path: without a \<open>RawPath\<close>
  on either side, the base path less at most one trailing slash, one slash, and the
  incoming path less at most one leading slash; otherwise the raw path is that join of
  the escaped paths and it decodes to the path. The header \<open>Authorization\<close> is the
  token's type, a space and the access token, which is \<open>Bearer\<close> and the token for a
  token of type \<open>Bearer\<close>. The header \<open>X-Forwarded-Prefix\<close> has the value \<open>/\<close> added
  to its incoming values, provided the reverse proxy's work on the headers leaves that
  header alone. Requests for \<open>/foo/bar\<close> and \<open>foo/bar\<close> with the base paths
  \<open>/api/metrics/v1/test\<close> and \<open>/api/metrics/v1/test/\<close> go to
  \<open>/api/metrics/v1/test/foo/bar\<close>.
\<close>

theorem forward_rewrites_and_authorizes:
  assumes paths: "RawPath u = [] \<and> RawPath (ReqURL r) = [] \<or>
                  unescape (esc u) = Some (Path u) \<and>
                  unescape (esc ((ReqURL r)\<lparr>Scheme := Scheme u, Host := Host u\<rparr>))
                    = Some (Path (ReqURL r))"
  shows "(source = Inl err \<longrightarrow> forward esc Type hop u source r = Failed err) \<and>
         (source = Inr t \<longrightarrow>
            (\<exists>out.
               forward esc Type hop u source r = Forwarded out \<and>
               Scheme (ReqURL out) = Scheme u \<and> Host (ReqURL out) = Host u \<and>
               ReqHost out = Host u \<and>
               (RawPath u = [] \<and> RawPath (ReqURL r) = [] \<longrightarrow>
                  Path (ReqURL out) =
                    trimSlashSuffix (Path u) @ ''/'' @ trimSlashPrefix (Path (ReqURL r)) \<and>
                  RawPath (ReqURL out) = []) \<and>
               (\<not> (RawPath u = [] \<and> RawPath (ReqURL r) = []) \<longrightarrow>
                  RawPath (ReqURL out) =
                    trimSlashSuffix (esc u) @ ''/'' @
                    trimSlashPrefix (esc ((ReqURL r)\<lparr>Scheme := Scheme u, Host := Host u\<rparr>)) \<and>
                  unescape (RawPath (ReqURL out)) = Some (Path (ReqURL out))) \<and>
               (hop (Header_Add (ReqHeader r) prefixHeader ''/'') prefixHeader
                  = Header_Add (ReqHeader r) prefixHeader ''/'' prefixHeader \<longrightarrow>
                  ReqHeader out prefixHeader =
                    Some ((case ReqHeader r prefixHeader of None \<Rightarrow> [] | Some vs \<Rightarrow> vs)
                          @ [''/''])) \<and>
               ReqHeader out ''Authorization'' = Some [Type t @ '' '' @ AccessToken t] \<and>
               (Type t = ''Bearer'' \<longrightarrow>
                  ReqHeader out ''Authorization'' = Some [''Bearer '' @ AccessToken t]) \<and>
               (RawPath u = [] \<and> RawPath (ReqURL r) = [] \<and>
                Path u = ''/api/metrics/v1/test'' \<and> Path (ReqURL r) = ''/foo/bar'' \<longrightarrow>
                  Path (ReqURL out) = ''/api/metrics/v1/test/foo/bar'') \<and>
               (RawPath u = [] \<and> RawPath (ReqURL r) = [] \<and>
                Path u = ''/api/metrics/v1/test/'' \<and> Path (ReqURL r) = ''/foo/bar'' \<longrightarrow>
                  Path (ReqURL out) = ''/api/metrics/v1/test/foo/bar'') \<and>
               (RawPath u = [] \<and> RawPath (ReqURL r) = [] \<and>
                Path u = ''/api/metrics/v1/test'' \<and> Path (ReqURL r) = ''foo/bar'' \<longrightarrow>
                  Path (ReqURL out) = ''/api/metrics/v1/test/foo/bar'')))"
proof -
  let ?b = "(ReqURL r)\<lparr>Scheme := Scheme u, Host := Host u\<rparr>"
  have paths': "RawPath u = [] \<and> RawPath ?b = [] \<or>
        unescape (esc u) = Some (Path u) \<and> unescape (esc ?b) = Some (Path ?b)"
    using paths by simp
  from joinURLPath_defined [OF paths'] obtain p rp where
    j: "joinURLPath esc u ?b = Some (p, rp)"
    by blast
  have plain: "p = trimSlashSuffix (Path u) @ ''/'' @ trimSlashPrefix (Path (ReqURL r)) \<and> rp = []"
    if "RawPath u = [] \<and> RawPath (ReqURL r) = []"
    using that j by (simp add: joinURLPath_plain singleJoiningSlash_trim)
  have escaped: "rp = trimSlashSuffix (esc u) @ ''/'' @ trimSlashPrefix (esc ?b) \<and>
                 unescape rp = Some p"
    if n: "\<not> (RawPath u = [] \<and> RawPath (ReqURL r) = [])"
  proof -
    from n have n': "\<not> (RawPath u = [] \<and> RawPath ?b = [])"
      by simp
    with paths' have "unescape (esc u) = Some (Path u)" "unescape (esc ?b) = Some (Path ?b)"
      by blast+
    from joinURLPath_escaped [OF n' this] j
    have "rp = singleJoiningSlash (esc u) (esc ?b)" "unescape rp = Some p"
      by auto
    then show ?thesis
      by (simp add: singleJoiningSlash_trim)
  qed
  have ex: "trimSlashSuffix ''/api/metrics/v1/test'' @ ''/'' @ trimSlashPrefix ''/foo/bar''
              = ''/api/metrics/v1/test/foo/bar''"
    "trimSlashSuffix ''/api/metrics/v1/test/'' @ ''/'' @ trimSlashPrefix ''/foo/bar''
              = ''/api/metrics/v1/test/foo/bar''"
    "trimSlashSuffix ''/api/metrics/v1/test'' @ ''/'' @ trimSlashPrefix ''foo/bar''
              = ''/api/metrics/v1/test/foo/bar''"
    by (simp_all add: trimSlashSuffix_def trimSlashPrefix_def HasSuffix_def HasPrefix_def
        suffix_to_prefix)
  let ?h = "Header_Add (ReqHeader r) prefixHeader ''/''"
  let ?d = "r\<lparr>ReqURL := (ReqURL r)\<lparr>Scheme := Scheme u, Host := Host u, Path := p, RawPath := rp\<rparr>,
               ReqHost := Host u, ReqHeader := ?h\<rparr>"
  have d: "Director esc u r = Some ?d"
    using j by (simp add: Director_result)
  have failed: "forward esc Type hop u source r = Failed err" if "source = Inl err"
    using that d by (simp add: forward_def RoundTrip_def)
  have ok: "\<exists>out.
               forward esc Type hop u source r = Forwarded out \<and>
               Scheme (ReqURL out) = Scheme u \<and> Host (ReqURL out) = Host u \<and>
               ReqHost out = Host u \<and> Path (ReqURL out) = p \<and> RawPath (ReqURL out) = rp \<and>
               ReqHeader out prefixHeader = hop ?h prefixHeader \<and>
               ReqHeader out ''Authorization'' = Some [Type t @ '' '' @ AccessToken t]"
    if "source = Inr t"
    using that d
    by (simp add: forward_def RoundTrip_def Header_Set_def prefixHeader_def)
  have hdr: "?h prefixHeader =
      Some ((case ReqHeader r prefixHeader of None \<Rightarrow> [] | Some vs \<Rightarrow> vs) @ [''/''])"
    by (simp add: Header_Add_def)
  show ?thesis
  proof (intro conjI impI)
    assume "source = Inl err"
    then show "forward esc Type hop u source r = Failed err"
      by (rule failed)
  next
    assume "source = Inr t"
    from ok [OF this] obtain out where
      o: "forward esc Type hop u source r = Forwarded out"
         "Scheme (ReqURL out) = Scheme u" "Host (ReqURL out) = Host u"
         "ReqHost out = Host u" "Path (ReqURL out) = p" "RawPath (ReqURL out) = rp"
         "ReqHeader out prefixHeader = hop ?h prefixHeader"
         "ReqHeader out ''Authorization'' = Some [Type t @ '' '' @ AccessToken t]"
      by blast
    show "\<exists>out.
               forward esc Type hop u source r = Forwarded out \<and>
               Scheme (ReqURL out) = Scheme u \<and> Host (ReqURL out) = Host u \<and>
               ReqHost out = Host u \<and>
               (RawPath u = [] \<and> RawPath (ReqURL r) = [] \<longrightarrow>
                  Path (ReqURL out) =
                    trimSlashSuffix (Path u) @ ''/'' @ trimSlashPrefix (Path (ReqURL r)) \<and>
                  RawPath (ReqURL out) = []) \<and>
               (\<not> (RawPath u = [] \<and> RawPath (ReqURL r) = []) \<longrightarrow>
                  RawPath (ReqURL out) =
                    trimSlashSuffix (esc u) @ ''/'' @
                    trimSlashPrefix (esc ((ReqURL r)\<lparr>Scheme := Scheme u, Host := Host u\<rparr>)) \<and>
                  unescape (RawPath (ReqURL out)) = Some (Path (ReqURL out))) \<and>
               (hop (Header_Add (ReqHeader r) prefixHeader ''/'') prefixHeader
                  = Header_Add (ReqHeader r) prefixHeader ''/'' prefixHeader \<longrightarrow>
                  ReqHeader out prefixHeader =
                    Some ((case ReqHeader r prefixHeader of None \<Rightarrow> [] | Some vs \<Rightarrow> vs)
                          @ [''/''])) \<and>
               ReqHeader out ''Authorization'' = Some [Type t @ '' '' @ AccessToken t] \<and>
               (Type t = ''Bearer'' \<longrightarrow>
                  ReqHeader out ''Authorization'' = Some [''Bearer '' @ AccessToken t]) \<and>
               (RawPath u = [] \<and> RawPath (ReqURL r) = [] \<and>
                Path u = ''/api/metrics/v1/test'' \<and> Path (ReqURL r) = ''/foo/bar'' \<longrightarrow>
                  Path (ReqURL out) = ''/api/metrics/v1/test/foo/bar'') \<and>
               (RawPath u = [] \<and> RawPath (ReqURL r) = [] \<and>
                Path u = ''/api/metrics/v1/test/'' \<and> Path (ReqURL r) = ''/foo/bar'' \<longrightarrow>
                  Path (ReqURL out) = ''/api/metrics/v1/test/foo/bar'') \<and>
               (RawPath u = [] \<and> RawPath (ReqURL r) = [] \<and>
                Path u = ''/api/metrics/v1/test'' \<and> Path (ReqURL r) = ''foo/bar'' \<longrightarrow>
                  Path (ReqURL out) = ''/api/metrics/v1/test/foo/bar'')"
    proof (intro exI [of _ out] conjI impI)
      show "forward esc Type hop u source r = Forwarded out" by (rule o(1))
      show "Scheme (ReqURL out) = Scheme u" by (rule o(2))
      show "Host (ReqURL out) = Host u" by (rule o(3))
      show "ReqHost out = Host u" by (rule o(4))
      show "ReqHeader out ''Authorization'' = Some [Type t @ '' '' @ AccessToken t]"
        by (rule o(8))
    next
      assume "Type t = ''Bearer''"
      with o(8) show "ReqHeader out ''Authorization'' = Some [''Bearer '' @ AccessToken t]"
        by simp
    next
      assume "hop ?h prefixHeader = ?h prefixHeader"
      with o(7) hdr show "ReqHeader out prefixHeader =
          Some ((case ReqHeader r prefixHeader of None \<Rightarrow> [] | Some vs \<Rightarrow> vs) @ [''/''])"
        by simp
    next
      assume a: "RawPath u = [] \<and> RawPath (ReqURL r) = []"
      from plain [OF a] o(5)
      show "Path (ReqURL out) =
              trimSlashSuffix (Path u) @ ''/'' @ trimSlashPrefix (Path (ReqURL r))"
        by simp
      from plain [OF a] o(6) show "RawPath (ReqURL out) = []"
        by simp
    next
      assume a: "\<not> (RawPath u = [] \<and> RawPath (ReqURL r) = [])"
      from escaped [OF a] o(6)
      show "RawPath (ReqURL out) =
              trimSlashSuffix (esc u) @ ''/'' @
              trimSlashPrefix (esc ((ReqURL r)\<lparr>Scheme := Scheme u, Host := Host u\<rparr>))"
        by simp
      from escaped [OF a] have "unescape rp = Some p"
        by (rule conjunct2)
      then show "unescape (RawPath (ReqURL out)) = Some (Path (ReqURL out))"
        unfolding o(5) o(6) .
    next
      assume a: "RawPath u = [] \<and> RawPath (ReqURL r) = [] \<and>
                Path u = ''/api/metrics/v1/test'' \<and> Path (ReqURL r) = ''/foo/bar''"
      then have "RawPath u = [] \<and> RawPath (ReqURL r) = []" by simp
      from plain [OF this] o(5) a ex(1)
      show "Path (ReqURL out) = ''/api/metrics/v1/test/foo/bar''"
        by simp
    next
      assume a: "RawPath u = [] \<and> RawPath (ReqURL r) = [] \<and>
                Path u = ''/api/metrics/v1/test/'' \<and> Path (ReqURL r) = ''/foo/bar''"
      then have "RawPath u = [] \<and> RawPath (ReqURL r) = []" by simp
      from plain [OF this] o(5) a ex(2)
      show "Path (ReqURL out) = ''/api/metrics/v1/test/foo/bar''"
        by simp
    next
      assume a: "RawPath u = [] \<and> RawPath (ReqURL r) = [] \<and>
                Path u = ''/api/metrics/v1/test'' \<and> Path (ReqURL r) = ''foo/bar''"
      then have "RawPath u = [] \<and> RawPath (ReqURL r) = []" by simp
      from plain [OF this] o(5) a ex(3)
      show "Path (ReqURL out) = ''/api/metrics/v1/test/foo/bar''"
        by simp
    qed
  qed
qed

text \<open>
  The theorem of C7 on the scenario of the specification with a token of type
  \<open>Bearer\<close>, on a base path that ends in a slash, on an incoming path without a
  leading slash, on a request whose path has an escaped space, and on a token source
  that fails.
\<close>

theorem forward_rewrites_and_authorizes_witness:
  "(\<exists>out. forward Path exampleBearer exampleHopByHop exampleUpstream
            (Inr \<lparr>AccessToken = ''abc'', Expiry = 0\<rparr>) exampleRequest = Forwarded out \<and>
          Scheme (ReqURL out) = ''http'' \<and> Host (ReqURL out) = ''127.0.0.1:8443'' \<and>
          ReqHost out = ''127.0.0.1:8443'' \<and>
          Path (ReqURL out) = ''/api/metrics/v1/test/foo/bar'' \<and> RawPath (ReqURL out) = [] \<and>
          ReqHeader out ''X-Forwarded-Prefix'' = Some [''/''] \<and>
          ReqHeader out ''Authorization'' = Some [''Bearer abc'']) \<and>
   (\<exists>out. forward Path exampleBearer exampleHopByHop
            (exampleUpstream\<lparr>Path := ''/api/metrics/v1/test/''\<rparr>)
            (Inr \<lparr>AccessToken = ''abc'', Expiry = 0\<rparr>) exampleRequest = Forwarded out \<and>
          Path (ReqURL out) = ''/api/metrics/v1/test/foo/bar'') \<and>
   (\<exists>out. forward Path exampleBearer exampleHopByHop exampleUpstream
            (Inr \<lparr>AccessToken = ''abc'', Expiry = 0\<rparr>)
            (exampleRequest\<lparr>ReqURL := (ReqURL exampleRequest)\<lparr>Path := ''foo/bar''\<rparr>\<rparr>)
            = Forwarded out \<and>
          Path (ReqURL out) = ''/api/metrics/v1/test/foo/bar'') \<and>
   (\<exists>out. forward (\<lambda>u. if RawPath u = [] then Path u else RawPath u) exampleBearer
            exampleHopByHop exampleUpstream (Inr \<lparr>AccessToken = ''abc'', Expiry = 0\<rparr>)
            (exampleRequest\<lparr>ReqURL := (ReqURL exampleRequest)\<lparr>Path := ''/foo/a b'',
                                                               RawPath := ''/foo/a%20b''\<rparr>\<rparr>)
            = Forwarded out \<and>
          Path (ReqURL out) = ''/api/metrics/v1/test/foo/a b'' \<and>
          RawPath (ReqURL out) = ''/api/metrics/v1/test/foo/a%20b'') \<and>
   forward Path exampleBearer exampleHopByHop exampleUpstream
     (Inl ''oauth2: cannot fetch token'') exampleRequest = Failed ''oauth2: cannot fetch token''"
proof -
  let ?t = "\<lparr>AccessToken = ''abc'', Expiry = 0\<rparr>"
  let ?esc = "\<lambda>u. if RawPath u = [] then Path u else RawPath u"
  let ?u2 = "exampleUpstream\<lparr>Path := ''/api/metrics/v1/test/''\<rparr>"
  let ?r3 = "exampleRequest\<lparr>ReqURL := (ReqURL exampleRequest)\<lparr>Path := ''foo/bar''\<rparr>\<rparr>"
  let ?r4 = "exampleRequest\<lparr>ReqURL := (ReqURL exampleRequest)\<lparr>Path := ''/foo/a b'',
                                                               RawPath := ''/foo/a%20b''\<rparr>\<rparr>"
  have up: "Scheme exampleUpstream = ''http''" "Host exampleUpstream = ''127.0.0.1:8443''"
    "Path exampleUpstream = ''/api/metrics/v1/test''" "RawPath exampleUpstream = []"
    by (simp_all add: exampleUpstream_def)
  have rq: "Path (ReqURL exampleRequest) = ''/foo/bar''" "RawPath (ReqURL exampleRequest) = []"
    "ReqHeader exampleRequest prefixHeader = None"
    by (simp_all add: exampleRequest_def prefixHeader_def)
  have hop: "exampleHopByHop (Header_Add (ReqHeader exampleRequest) prefixHeader ''/'') prefixHeader
               = Header_Add (ReqHeader exampleRequest) prefixHeader ''/'' prefixHeader"
    by (simp add: exampleHopByHop_def prefixHeader_def)
  have ty: "exampleBearer ?t = ''Bearer''"
    by (simp add: exampleBearer_def)
  have p1: "RawPath exampleUpstream = [] \<and> RawPath (ReqURL exampleRequest) = [] \<or>
      unescape (Path exampleUpstream) = Some (Path exampleUpstream) \<and>
      unescape (Path ((ReqURL exampleRequest)\<lparr>Scheme := Scheme exampleUpstream,
                                               Host := Host exampleUpstream\<rparr>))
        = Some (Path (ReqURL exampleRequest))"
    using up rq by simp
  from forward_rewrites_and_authorizes [where u = exampleUpstream and r = exampleRequest
      and esc = Path and source = "Inr ?t" and t = ?t and Type = exampleBearer
      and hop = exampleHopByHop, OF p1] up rq hop ty
  have c1: "\<exists>out. forward Path exampleBearer exampleHopByHop exampleUpstream
            (Inr ?t) exampleRequest = Forwarded out \<and>
          Scheme (ReqURL out) = ''http'' \<and> Host (ReqURL out) = ''127.0.0.1:8443'' \<and>
          ReqHost out = ''127.0.0.1:8443'' \<and>
          Path (ReqURL out) = ''/api/metrics/v1/test/foo/bar'' \<and> RawPath (ReqURL out) = [] \<and>
          ReqHeader out ''X-Forwarded-Prefix'' = Some [''/''] \<and>
          ReqHeader out ''Authorization'' = Some [''Bearer abc'']"
    by (auto simp: prefixHeader_def)
  from forward_rewrites_and_authorizes [where u = exampleUpstream and r = exampleRequest
      and esc = Path and source = "Inl ''oauth2: cannot fetch token''"
      and err = "''oauth2: cannot fetch token''" and Type = exampleBearer
      and hop = exampleHopByHop, OF p1]
  have c5: "forward Path exampleBearer exampleHopByHop exampleUpstream
     (Inl ''oauth2: cannot fetch token'') exampleRequest = Failed ''oauth2: cannot fetch token''"
    by simp
  have p2: "RawPath ?u2 = [] \<and> RawPath (ReqURL exampleRequest) = [] \<or>
      unescape (Path ?u2) = Some (Path ?u2) \<and>
      unescape (Path ((ReqURL exampleRequest)\<lparr>Scheme := Scheme ?u2, Host := Host ?u2\<rparr>))
        = Some (Path (ReqURL exampleRequest))"
    using up rq by simp
  from forward_rewrites_and_authorizes [where u = ?u2 and r = exampleRequest
      and esc = Path and source = "Inr ?t" and t = ?t and Type = exampleBearer
      and hop = exampleHopByHop, OF p2] up rq
  have c2: "\<exists>out. forward Path exampleBearer exampleHopByHop ?u2 (Inr ?t) exampleRequest
              = Forwarded out \<and>
            Path (ReqURL out) = ''/api/metrics/v1/test/foo/bar''"
    by auto
  have p3: "RawPath exampleUpstream = [] \<and> RawPath (ReqURL ?r3) = [] \<or>
      unescape (Path exampleUpstream) = Some (Path exampleUpstream) \<and>
      unescape (Path ((ReqURL ?r3)\<lparr>Scheme := Scheme exampleUpstream,
                                    Host := Host exampleUpstream\<rparr>))
        = Some (Path (ReqURL ?r3))"
    using up rq by simp
  from forward_rewrites_and_authorizes [where u = exampleUpstream and r = ?r3
      and esc = Path and source = "Inr ?t" and t = ?t and Type = exampleBearer
      and hop = exampleHopByHop, OF p3] up rq
  have c3: "\<exists>out. forward Path exampleBearer exampleHopByHop exampleUpstream (Inr ?t) ?r3
              = Forwarded out \<and>
            Path (ReqURL out) = ''/api/metrics/v1/test/foo/bar''"
    by auto
  have u1: "unescape (?esc exampleUpstream) = Some (Path exampleUpstream)"
    unfolding exampleUpstream_def by code_simp
  have u2: "unescape (?esc ((ReqURL ?r4)\<lparr>Scheme := Scheme exampleUpstream,
                                           Host := Host exampleUpstream\<rparr>))
              = Some (Path (ReqURL ?r4))"
    unfolding exampleUpstream_def exampleRequest_def by code_simp
  have p4: "RawPath exampleUpstream = [] \<and> RawPath (ReqURL ?r4) = [] \<or>
      unescape (?esc exampleUpstream) = Some (Path exampleUpstream) \<and>
      unescape (?esc ((ReqURL ?r4)\<lparr>Scheme := Scheme exampleUpstream,
                                      Host := Host exampleUpstream\<rparr>))
        = Some (Path (ReqURL ?r4))"
    using u1 u2 by blast
  have raw4: "trimSlashSuffix (?esc exampleUpstream) @ ''/'' @
      trimSlashPrefix (?esc ((ReqURL ?r4)\<lparr>Scheme := Scheme exampleUpstream,
                                             Host := Host exampleUpstream\<rparr>))
      = ''/api/metrics/v1/test/foo/a%20b''"
    by (simp add: up trimSlashSuffix_def trimSlashPrefix_def HasSuffix_def HasPrefix_def
        suffix_to_prefix)
  have dec4: "unescape ''/api/metrics/v1/test/foo/a%20b'' = Some ''/api/metrics/v1/test/foo/a b''"
    by code_simp
  have n4: "\<not> (RawPath exampleUpstream = [] \<and> RawPath (ReqURL ?r4) = [])"
    by simp
  from forward_rewrites_and_authorizes [where u = exampleUpstream and r = ?r4
      and esc = ?esc and source = "Inr ?t" and t = ?t and Type = exampleBearer
      and hop = exampleHopByHop, OF p4]
  obtain out4 where o4: "forward ?esc exampleBearer exampleHopByHop exampleUpstream (Inr ?t) ?r4
        = Forwarded out4"
      "\<not> (RawPath exampleUpstream = [] \<and> RawPath (ReqURL ?r4) = []) \<longrightarrow>
         RawPath (ReqURL out4) =
           trimSlashSuffix (?esc exampleUpstream) @ ''/'' @
           trimSlashPrefix (?esc ((ReqURL ?r4)\<lparr>Scheme := Scheme exampleUpstream,
                                                  Host := Host exampleUpstream\<rparr>)) \<and>
         unescape (RawPath (ReqURL out4)) = Some (Path (ReqURL out4))"
    by blast
  from o4(2) n4 raw4 have r4: "RawPath (ReqURL out4) = ''/api/metrics/v1/test/foo/a%20b''"
    "unescape (RawPath (ReqURL out4)) = Some (Path (ReqURL out4))"
    by metis+
  with dec4 have "Path (ReqURL out4) = ''/api/metrics/v1/test/foo/a b''"
    by simp
  with o4(1) r4(1)
  have c4: "\<exists>out. forward ?esc exampleBearer exampleHopByHop exampleUpstream (Inr ?t) ?r4
              = Forwarded out \<and>
            Path (ReqURL out) = ''/api/metrics/v1/test/foo/a b'' \<and>
            RawPath (ReqURL out) = ''/api/metrics/v1/test/foo/a%20b''"
    by blast
  from c1 c2 c3 c4 c5 show ?thesis
    by blast
qed

text \<open>
  Claim C7 as stated fails: when the token source returns an error the request is
  not forwarded at all, and for a token of type \<open>mac\<close> the header \<open>Authorization\<close>
  is \<open>MAC\<close> and the token, not \<open>Bearer\<close> and the token.
\<close>

theorem failed_token_source_is_not_forwarded:
  "forward Path exampleBearer exampleHopByHop exampleUpstream
     (Inl ''oauth2: cannot fetch token'') exampleRequest = Failed ''oauth2: cannot fetch token'' \<and>
   (case forward Path exampleMac exampleHopByHop exampleUpstream
           (Inr \<lparr>AccessToken = ''abc'', Expiry = 0\<rparr>) exampleRequest of
      Forwarded out \<Rightarrow> ReqHeader out ''Authorization''
    | Failed err \<Rightarrow> None
    | Panicked \<Rightarrow> None) = Some [''MAC abc'']"
  by (simp add: forward_def RoundTrip_def Director_def joinURLPath_def singleJoiningSlash_def
      HasSuffix_def HasPrefix_def suffix_to_prefix Header_Add_def Header_Set_def
      prefixHeader_def exampleUpstream_def exampleRequest_def exampleMac_def Let_def)

text \<open>
  Claim C10. A request that the \<open>Director\<close> returns differs from the incoming one
  in the scheme, host, path and raw path of its URL, in its \<open>Host\<close> field, and in one
  more value \<open>/\<close> of the header \<open>X-Forwarded-Prefix\<close>; the method, the query string,
  the body and every other header are the incoming ones.
\<close>

theorem Director_frame:
  assumes "Director esc u r = Some r'"
  shows "Method r' = Method r \<and> Body r' = Body r \<and>
         RawQuery (ReqURL r') = RawQuery (ReqURL r) \<and>
         (\<forall>k. k \<noteq> prefixHeader \<longrightarrow> ReqHeader r' k = ReqHeader r k) \<and>
         ReqHeader r' prefixHeader =
           Some ((case ReqHeader r prefixHeader of None \<Rightarrow> [] | Some vs \<Rightarrow> vs) @ [''/'']) \<and>
         (\<exists>p rp. r' = r\<lparr>ReqURL := (ReqURL r)\<lparr>Scheme := Scheme u, Host := Host u,
                                               Path := p, RawPath := rp\<rparr>,
                          ReqHost := Host u,
                          ReqHeader := (ReqHeader r)(prefixHeader \<mapsto>
                            (case ReqHeader r prefixHeader of None \<Rightarrow> [] | Some vs \<Rightarrow> vs) @ [''/''])\<rparr>)"
  using assms
  by (auto simp: Director_result Header_Add_def split: option.splits)

text \<open>
  The theorem of C10 on a \<open>POST\<close> request with a query string, a body and a
  \<open>Content-Type\<close> header.
\<close>

theorem Director_frame_witness:
  "Director Path exampleUpstream exampleRequest =
     Some \<lparr>Method = ''POST'',
           ReqURL = \<lparr>Scheme = ''http'', Host = ''127.0.0.1:8443'',
                     Path = ''/api/metrics/v1/test/foo/bar'', RawPath = [],
                     RawQuery = ''q=1''\<rparr>,
           ReqHost = ''127.0.0.1:8443'',
           ReqHeader = [''Content-Type'' \<mapsto> [''text/plain''],
                        ''X-Forwarded-Prefix'' \<mapsto> [''/'']],
           Body = ''data''\<rparr> \<and>
   Method (the (Director Path exampleUpstream exampleRequest)) = Method exampleRequest \<and>
   Body (the (Director Path exampleUpstream exampleRequest)) = Body exampleRequest \<and>
   RawQuery (ReqURL (the (Director Path exampleUpstream exampleRequest)))
     = RawQuery (ReqURL exampleRequest) \<and>
   ReqHeader (the (Director Path exampleUpstream exampleRequest)) ''Content-Type''
     = ReqHeader exampleRequest ''Content-Type''"
proof -
  let ?out = "\<lparr>Method = ''POST'',
           ReqURL = \<lparr>Scheme = ''http'', Host = ''127.0.0.1:8443'',
                     Path = ''/api/metrics/v1/test/foo/bar'', RawPath = [],
                     RawQuery = ''q=1''\<rparr>,
           ReqHost = ''127.0.0.1:8443'',
           ReqHeader = [''Content-Type'' \<mapsto> [''text/plain''],
                        ''X-Forwarded-Prefix'' \<mapsto> [''/'']],
           Body = ''data''\<rparr>"
  have d: "Director Path exampleUpstream exampleRequest = Some ?out"
    by (simp add: Director_def joinURLPath_def singleJoiningSlash_def HasSuffix_def
        HasPrefix_def suffix_to_prefix Header_Add_def prefixHeader_def exampleUpstream_def
        exampleRequest_def Let_def)
  have k: "''Content-Type'' \<noteq> prefixHeader"
    by (simp add: prefixHeader_def)
  from Director_frame [OF d] k
  have "Method ?out = Method exampleRequest \<and> Body ?out = Body exampleRequest \<and>
        RawQuery (ReqURL ?out) = RawQuery (ReqURL exampleRequest) \<and>
        ReqHeader ?out ''Content-Type'' = ReqHeader exampleRequest ''Content-Type''"
    by blast
  with d show ?thesis by simp
qed

end
